theory Spec2Isabelle
  imports Complex_Main
begin

section \<open>The status document (internal/collector/types.go, lines 1-111)\<close>

text \<open>
  The Go structs become records, field by field and under the Go names. A pointer field
  (\<^verbatim>\<open>*int64\<close>, \<^verbatim>\<open>*float64\<close>, \<^verbatim>\<open>*HeapMetrics\<close>) is an \<open>option\<close>: \<open>None\<close> is the
  nil pointer, which is what the JSON decoder leaves when the key is absent or null.
  A field that is not a pointer has no such state: it holds its Go zero value when the
  key is absent.

  \<^item> \<open>int64\<close> and \<open>int\<close> values are only read and converted to \<open>float64\<close>, never
    computed with, so they are \<open>int\<close> here (the decoder rejects a number outside
    the 64-bit range).
  \<^item> \<open>float64\<close> is idealised as \<open>real\<close>: rounding to the nearest representable
    value is not modelled.
  \<^item> A Go map is the list of its entries in the order in which \<^verbatim>\<open>range\<close> visits them in
    the pass at hand (Go leaves that order open); its keys are distinct. A map that may
    be tested against nil is an \<open>option\<close> of such a list.
\<close>

type_synonym int64 = int
type_synonym float64 = real
type_synonym ('k, 'v) gomap = "('k \<times> 'v) list"

record VersionInfo =
  Number :: string
  BuildHash :: string
  BuildNumber :: int
  BuildSnapshot :: bool

record OverallStatus =
  Level :: string
  Summary :: string

record ServiceStatus =
  Level :: string
  Summary :: string

record StatusInfo =
  Overall :: OverallStatus
  Core :: "(string, ServiceStatus option) gomap"
  Plugins :: "(string, ServiceStatus option) gomap"

record HeapMetrics =
  TotalBytes :: int64
  UsedBytes :: int64
  SizeLimit :: int64

record MemoryMetrics =
  Heap :: "HeapMetrics option"
  Resident :: "int64 option"

record ProcessMetrics =
  Memory :: "MemoryMetrics option"
  EventLoopDelay :: "float64 option"
  Uptime :: "float64 option"

record ControlGroupCPU =
  CPUPercent :: "float64 option"

record CPUMetrics =
  ControlGroup :: "ControlGroupCPU option"

record LoadMetrics =
  Load1m :: "float64 option"
  Load5m :: "float64 option"
  Load15m :: "float64 option"

record OSMemoryMetrics =
  TotalBytes :: "int64 option"
  FreeBytes :: "int64 option"
  UsedBytes :: "int64 option"

record OSMetrics =
  CPU :: "CPUMetrics option"
  Load :: "LoadMetrics option"
  Memory :: "OSMemoryMetrics option"

record RequestMetrics =
  Total :: "int64 option"
  Disconnects :: "int64 option"
  StatusCodes :: "(string, int) gomap option"

record ResponseTimeMetrics =
  Avg :: "float64 option"
  Max' :: "float64 option"

record MetricsInfo =
  CollectedAt :: string
  ConcurrentConnections :: "int64 option"
  Process :: ProcessMetrics
  OS :: "OSMetrics option"
  Requests :: "RequestMetrics option"
  ResponseTimes :: "ResponseTimeMetrics option"

record KibanaStatus =
  Name :: string
  UUID :: string
  Version :: VersionInfo
  Status :: StatusInfo
  Metrics :: MetricsInfo

text \<open>
  Indexing a map, \<^verbatim>\<open>m[key]\<close> on a map of pointers: the entry's pointer, and the nil
  pointer when the key has no entry.
\<close>

definition index_map :: "('k, 'v option) gomap \<Rightarrow> 'k \<Rightarrow> 'v option" where
  "index_map m k = (case map_of m k of None \<Rightarrow> None | Some p \<Rightarrow> p)"

text \<open>
  The value \<^verbatim>\<open>var status KibanaStatus\<close> starts from (line 429): every field at its Go
  zero value. The decoder fills in what the payload holds.
\<close>

definition zero_KibanaStatus :: KibanaStatus where
  "zero_KibanaStatus =
     \<lparr>Name = [], UUID = [],
      Version = \<lparr>Number = [], BuildHash = [], BuildNumber = 0, BuildSnapshot = False\<rparr>,
      Status = \<lparr>Overall = \<lparr>OverallStatus.Level = [], OverallStatus.Summary = []\<rparr>,
                Core = [], Plugins = []\<rparr>,
      Metrics = \<lparr>CollectedAt = [], ConcurrentConnections = None,
                 Process = \<lparr>ProcessMetrics.Memory = None, EventLoopDelay = None, Uptime = None\<rparr>,
                 OS = None, Requests = None, ResponseTimes = None\<rparr>\<rparr>"

text \<open>
  The members of a \<^verbatim>\<open>"heap": {...}\<close> object as the payload holds them, each present or
  not, and the \<open>HeapMetrics\<close> the decoder makes of them: the three fields are plain
  \<^verbatim>\<open>int64\<close> (lines 63-67), so a member that is absent leaves the zero value.
\<close>

record HeapMembers =
  total_in_bytes :: "int64 option"
  used_in_bytes :: "int64 option"
  size_limit :: "int64 option"

definition decode_HeapMetrics :: "HeapMembers \<Rightarrow> HeapMetrics" where
  "decode_HeapMetrics j =
     \<lparr>HeapMetrics.TotalBytes = (case total_in_bytes j of None \<Rightarrow> 0 | Some v \<Rightarrow> v),
      HeapMetrics.UsedBytes = (case used_in_bytes j of None \<Rightarrow> 0 | Some v \<Rightarrow> v),
      SizeLimit = (case size_limit j of None \<Rightarrow> 0 | Some v \<Rightarrow> v)\<rparr>"

section \<open>Descriptors and samples\<close>

text \<open>
  \<open>KibanaCollector\<close> holds 24 pointers to descriptors (lines 145-174). A sample refers
  to its descriptor by that pointer, so the pointers are an enumeration under the
  field names, and \<open>NewKibanaCollector\<close> gives each one its contents (lines 194-323).
\<close>

datatype DescRef =
  up | statusOverall | statusCore | statusElastic | statusSavedObjects
  | heapTotal | heapUsed | heapSizeLimit | residentSet | eventLoop
  | requestsTotal | responseTime | concurrentConn
  | uptime | processMemory | osCPUPercent | osLoadAvg1m | osLoadAvg5m | osLoadAvg15m
  | osMemTotal | osMemFree | osMemUsed
  | scrapeDuration | scrapeSuccess

record Desc =
  fqName :: string
  help' :: string
  variableLabels :: "string list"

definition namespace :: string where
  "namespace = ''kibana''"

text \<open>
  \<open>prometheus.BuildFQName\<close>: the non-empty parts joined by an underscore; the empty
  string when the name is empty.
\<close>

definition BuildFQName :: "string \<Rightarrow> string \<Rightarrow> string \<Rightarrow> string" where
  "BuildFQName ns subsystem name =
     (if name = [] then []
      else if ns \<noteq> [] \<and> subsystem \<noteq> [] then ns @ ''_'' @ subsystem @ ''_'' @ name
      else if ns \<noteq> [] then ns @ ''_'' @ name
      else if subsystem \<noteq> [] then subsystem @ ''_'' @ name
      else name)"

definition NewDesc :: "string \<Rightarrow> string \<Rightarrow> string list \<Rightarrow> Desc" where
  "NewDesc fq h labels = \<lparr>fqName = fq, help' = h, variableLabels = labels\<rparr>"

fun NewKibanaCollector :: "DescRef \<Rightarrow> Desc" where
  "NewKibanaCollector up =
     NewDesc (BuildFQName namespace [] ''up'') ''Was the last scrape of Kibana successful'' []"
| "NewKibanaCollector statusOverall =
     NewDesc (BuildFQName namespace ''status'' ''overall'')
       ''Kibana overall status (1=green, 0.5=yellow, 0=red, -1=unknown)'' []"
| "NewKibanaCollector statusCore =
     NewDesc (BuildFQName namespace ''status'' ''core'')
       ''Kibana core status (1=available, 0=unavailable)'' [''name'']"
| "NewKibanaCollector statusElastic =
     NewDesc (BuildFQName namespace ''status'' ''elasticsearch'')
       ''Elasticsearch connection status (1=available, 0=unavailable)'' []"
| "NewKibanaCollector statusSavedObjects =
     NewDesc (BuildFQName namespace ''status'' ''saved_objects'')
       ''Saved objects status (1=available, 0=unavailable)'' []"
| "NewKibanaCollector heapTotal =
     NewDesc (BuildFQName namespace ''heap'' ''total_bytes'') ''Total heap size in bytes'' []"
| "NewKibanaCollector heapUsed =
     NewDesc (BuildFQName namespace ''heap'' ''used_bytes'') ''Used heap size in bytes'' []"
| "NewKibanaCollector heapSizeLimit =
     NewDesc (BuildFQName namespace ''heap'' ''size_limit_bytes'') ''Heap size limit in bytes'' []"
| "NewKibanaCollector residentSet =
     NewDesc (BuildFQName namespace ''memory'' ''resident_set_bytes'')
       ''Resident set size in bytes'' []"
| "NewKibanaCollector eventLoop =
     NewDesc (BuildFQName namespace ''event_loop'' ''delay_seconds'')
       ''Event loop delay in seconds'' []"
| "NewKibanaCollector requestsTotal =
     NewDesc (BuildFQName namespace ''requests'' ''total'') ''Total number of requests''
       [''status'']"
| "NewKibanaCollector responseTime =
     NewDesc (BuildFQName namespace ''response_time'' ''seconds'') ''Response time statistics''
       [''quantile'']"
| "NewKibanaCollector concurrentConn =
     NewDesc (BuildFQName namespace ''concurrent_connections'' ''total'')
       ''Number of concurrent connections'' []"
| "NewKibanaCollector uptime =
     NewDesc (BuildFQName namespace ''process'' ''uptime_seconds'')
       ''Kibana process uptime in seconds'' []"
| "NewKibanaCollector processMemory =
     NewDesc (BuildFQName namespace ''process'' ''memory_bytes'')
       ''Kibana process memory usage'' [''type'']"
| "NewKibanaCollector osCPUPercent =
     NewDesc (BuildFQName namespace ''os'' ''cpu_percent'') ''OS CPU usage percentage'' []"
| "NewKibanaCollector osLoadAvg1m =
     NewDesc (BuildFQName namespace ''os'' ''load_average_1m'') ''OS load average 1 minute'' []"
| "NewKibanaCollector osLoadAvg5m =
     NewDesc (BuildFQName namespace ''os'' ''load_average_5m'') ''OS load average 5 minutes'' []"
| "NewKibanaCollector osLoadAvg15m =
     NewDesc (BuildFQName namespace ''os'' ''load_average_15m'') ''OS load average 15 minutes'' []"
| "NewKibanaCollector osMemTotal =
     NewDesc (BuildFQName namespace ''os'' ''memory_total_bytes'') ''OS total memory in bytes'' []"
| "NewKibanaCollector osMemFree =
     NewDesc (BuildFQName namespace ''os'' ''memory_free_bytes'') ''OS free memory in bytes'' []"
| "NewKibanaCollector osMemUsed =
     NewDesc (BuildFQName namespace ''os'' ''memory_used_bytes'') ''OS used memory in bytes'' []"
| "NewKibanaCollector scrapeDuration =
     NewDesc (BuildFQName namespace ''scrape'' ''duration_seconds'') ''Duration of Kibana scrape'' []"
| "NewKibanaCollector scrapeSuccess =
     NewDesc (BuildFQName namespace ''scrape'' ''success'') ''Was the last scrape successful'' []"

text \<open>\<open>Describe\<close> sends the descriptors in this order (lines 328-353).\<close>

definition Describe :: "DescRef list" where
  "Describe =
     [up, statusOverall, statusCore, statusElastic, statusSavedObjects,
      heapTotal, heapUsed, heapSizeLimit, residentSet, eventLoop,
      requestsTotal, responseTime, concurrentConn,
      uptime, processMemory, osCPUPercent, osLoadAvg1m, osLoadAvg5m, osLoadAvg15m,
      osMemTotal, osMemFree, osMemUsed,
      scrapeDuration, scrapeSuccess]"

datatype ValueType = CounterValue | GaugeValue | UntypedValue

record Sample =
  desc :: DescRef
  valueType :: ValueType
  val :: float64
  labelValues :: "string list"

text \<open>
  \<open>prometheus.MustNewConstMetric\<close> builds the sample. It panics when the number of
  label values differs from the number of the descriptor's labels; \<open>labels_fit\<close> is
  that check, and \<open>exportStatus_labels_fit\<close> below shows that no call fails it.
\<close>

definition MustNewConstMetric :: "DescRef \<Rightarrow> ValueType \<Rightarrow> float64 \<Rightarrow> string list \<Rightarrow> Sample" where
  "MustNewConstMetric d t v ls = \<lparr>desc = d, valueType = t, val = v, labelValues = ls\<rparr>"

definition labels_fit :: "Sample \<Rightarrow> bool" where
  "labels_fit s = (length (labelValues s) = length (variableLabels (NewKibanaCollector (desc s))))"

text \<open>
  What one pass has sent on the channel \<open>ch\<close>, and how the pass ended: it returned, or
  it panicked on a nil pointer after the samples sent so far.
\<close>

datatype Run = Completed "Sample list" | Panicked "Sample list"

fun emitted :: "Run \<Rightarrow> Sample list" where
  "emitted (Completed out) = out"
| "emitted (Panicked out) = out"

fun completed :: "Run \<Rightarrow> bool" where
  "completed (Completed out) = True"
| "completed (Panicked out) = False"

text \<open>A send before a run, and statements that run after it if it returns.\<close>

fun send :: "Sample \<Rightarrow> Run \<Rightarrow> Run" where
  "send s (Completed out) = Completed (s # out)"
| "send s (Panicked out) = Panicked (s # out)"

fun and_then :: "Run \<Rightarrow> Sample list \<Rightarrow> Run" where
  "and_then (Completed out) later = Completed (out @ later)"
| "and_then (Panicked out) later = Panicked out"

section \<open>The translation: exportStatus (lines 437-561)\<close>

text \<open>Lines 439-447: the switch on the overall level; no case leaves the initial -1.0.\<close>

definition statusValue :: "string \<Rightarrow> float64" where
  "statusValue level =
     (if level = ''available'' \<or> level = ''green'' then 1.0
      else if level = ''degraded'' \<or> level = ''yellow'' then 0.5
      else if level = ''unavailable'' \<or> level = ''red'' then 0.0
      else -1.0)"

text \<open>
  Lines 451-457: the loop over the core map. \<open>svc.Level\<close> dereferences the entry's
  pointer with no nil check, so an entry whose pointer is nil stops the pass with a panic.
\<close>

fun exportCore :: "(string, ServiceStatus option) gomap \<Rightarrow> Run" where
  "exportCore [] = Completed []"
| "exportCore ((name, None) # entries) = Panicked []"
| "exportCore ((name, Some svc) # entries) =
     send (MustNewConstMetric statusCore GaugeValue
             (if ServiceStatus.Level svc = ''available'' then 1.0 else 0.0) [name])
       (exportCore entries)"

text \<open>Lines 460-466 and 469-475: the two named subsystems, each behind a nil check.\<close>

definition exportElasticsearch :: "KibanaStatus \<Rightarrow> Sample list" where
  "exportElasticsearch status =
     (case index_map (Core (Status status)) ''elasticsearch'' of
        None \<Rightarrow> []
      | Some svc \<Rightarrow>
          [MustNewConstMetric statusElastic GaugeValue
             (if ServiceStatus.Level svc = ''available'' then 1.0 else 0.0) []])"

definition exportSavedObjects :: "KibanaStatus \<Rightarrow> Sample list" where
  "exportSavedObjects status =
     (case index_map (Core (Status status)) ''savedObjects'' of
        None \<Rightarrow> []
      | Some svc \<Rightarrow>
          [MustNewConstMetric statusSavedObjects GaugeValue
             (if ServiceStatus.Level svc = ''available'' then 1.0 else 0.0) []])"

text \<open>Lines 478-488: process memory.\<close>

definition exportProcessMemory :: "KibanaStatus \<Rightarrow> Sample list" where
  "exportProcessMemory status =
     (case ProcessMetrics.Memory (Process (Metrics status)) of
        None \<Rightarrow> []
      | Some mem \<Rightarrow>
          (case Heap mem of
             None \<Rightarrow> []
           | Some heap \<Rightarrow>
               [MustNewConstMetric heapTotal GaugeValue (real_of_int (HeapMetrics.TotalBytes heap)) [],
                MustNewConstMetric heapUsed GaugeValue (real_of_int (HeapMetrics.UsedBytes heap)) [],
                MustNewConstMetric heapSizeLimit GaugeValue (real_of_int (SizeLimit heap)) []])
          @ (case Resident mem of
               None \<Rightarrow> []
             | Some r \<Rightarrow> [MustNewConstMetric residentSet GaugeValue (real_of_int r) []]))"

text \<open>Lines 491-493 and 496-498: event loop delay and uptime, milliseconds to seconds.\<close>

definition exportEventLoop :: "KibanaStatus \<Rightarrow> Sample list" where
  "exportEventLoop status =
     (case EventLoopDelay (Process (Metrics status)) of
        None \<Rightarrow> []
      | Some d \<Rightarrow> [MustNewConstMetric eventLoop GaugeValue (d / 1000.0) []])"

definition exportUptime :: "KibanaStatus \<Rightarrow> Sample list" where
  "exportUptime status =
     (case Uptime (Process (Metrics status)) of
        None \<Rightarrow> []
      | Some u \<Rightarrow> [MustNewConstMetric uptime GaugeValue (u / 1000.0) []])"

text \<open>Lines 501-514: the request counters; the loop of lines 510-512 over the status codes.\<close>

fun exportStatusCodes :: "(string, int) gomap \<Rightarrow> Sample list" where
  "exportStatusCodes [] = []"
| "exportStatusCodes ((code, count) # entries) =
     MustNewConstMetric requestsTotal CounterValue (real_of_int count) [code]
     # exportStatusCodes entries"

definition exportRequests :: "KibanaStatus \<Rightarrow> Sample list" where
  "exportRequests status =
     (case Requests (Metrics status) of
        None \<Rightarrow> []
      | Some reqs \<Rightarrow>
          (case Total reqs of
             None \<Rightarrow> []
           | Some t \<Rightarrow> [MustNewConstMetric requestsTotal CounterValue (real_of_int t) [''total'']])
          @ (case Disconnects reqs of
               None \<Rightarrow> []
             | Some d \<Rightarrow>
                 [MustNewConstMetric requestsTotal CounterValue (real_of_int d) [''disconnects'']])
          @ (case StatusCodes reqs of
               None \<Rightarrow> []
             | Some codes \<Rightarrow> exportStatusCodes codes))"

text \<open>Lines 517-519 and 522-530: concurrent connections and response times.\<close>

definition exportConcurrentConnections :: "KibanaStatus \<Rightarrow> Sample list" where
  "exportConcurrentConnections status =
     (case ConcurrentConnections (Metrics status) of
        None \<Rightarrow> []
      | Some n \<Rightarrow> [MustNewConstMetric concurrentConn GaugeValue (real_of_int n) []])"

definition exportResponseTimes :: "KibanaStatus \<Rightarrow> Sample list" where
  "exportResponseTimes status =
     (case ResponseTimes (Metrics status) of
        None \<Rightarrow> []
      | Some rt \<Rightarrow>
          (case Avg rt of
             None \<Rightarrow> []
           | Some a \<Rightarrow> [MustNewConstMetric responseTime GaugeValue (a / 1000.0) [''avg'']])
          @ (case Max' rt of
               None \<Rightarrow> []
             | Some m \<Rightarrow> [MustNewConstMetric responseTime GaugeValue (m / 1000.0) [''max'']]))"

text \<open>Lines 533-560: the operating system metrics.\<close>

definition exportCPU :: "OSMetrics \<Rightarrow> Sample list" where
  "exportCPU os =
     (case CPU os of
        None \<Rightarrow> []
      | Some cpu \<Rightarrow>
          (case ControlGroup cpu of
             None \<Rightarrow> []
           | Some cg \<Rightarrow>
               (case CPUPercent cg of
                  None \<Rightarrow> []
                | Some p \<Rightarrow> [MustNewConstMetric osCPUPercent GaugeValue p []])))"

definition exportLoad :: "OSMetrics \<Rightarrow> Sample list" where
  "exportLoad os =
     (case Load os of
        None \<Rightarrow> []
      | Some l \<Rightarrow>
          (case Load1m l of
             None \<Rightarrow> []
           | Some v \<Rightarrow> [MustNewConstMetric osLoadAvg1m GaugeValue v []])
          @ (case Load5m l of
               None \<Rightarrow> []
             | Some v \<Rightarrow> [MustNewConstMetric osLoadAvg5m GaugeValue v []])
          @ (case Load15m l of
               None \<Rightarrow> []
             | Some v \<Rightarrow> [MustNewConstMetric osLoadAvg15m GaugeValue v []]))"

definition exportOSMemory :: "OSMetrics \<Rightarrow> Sample list" where
  "exportOSMemory os =
     (case OSMetrics.Memory os of
        None \<Rightarrow> []
      | Some m \<Rightarrow>
          (case OSMemoryMetrics.TotalBytes m of
             None \<Rightarrow> []
           | Some v \<Rightarrow> [MustNewConstMetric osMemTotal GaugeValue (real_of_int v) []])
          @ (case FreeBytes m of
               None \<Rightarrow> []
             | Some v \<Rightarrow> [MustNewConstMetric osMemFree GaugeValue (real_of_int v) []])
          @ (case OSMemoryMetrics.UsedBytes m of
               None \<Rightarrow> []
             | Some v \<Rightarrow> [MustNewConstMetric osMemUsed GaugeValue (real_of_int v) []]))"

definition exportOS :: "KibanaStatus \<Rightarrow> Sample list" where
  "exportOS status =
     (case OS (Metrics status) of
        None \<Rightarrow> []
      | Some os \<Rightarrow> exportCPU os @ exportLoad os @ exportOSMemory os)"

text \<open>
  The whole function: the overall gauge, the core loop, and, if the loop returns, lines
  460-560, the blocks above in the order of the source.
\<close>

definition exportAfterCore :: "KibanaStatus \<Rightarrow> Sample list" where
  "exportAfterCore status =
     exportElasticsearch status @ exportSavedObjects status
     @ exportProcessMemory status @ exportEventLoop status @ exportUptime status
     @ exportRequests status @ exportConcurrentConnections status
     @ exportResponseTimes status @ exportOS status"

definition exportStatus :: "KibanaStatus \<Rightarrow> Run" where
  "exportStatus status =
     send (MustNewConstMetric statusOverall GaugeValue
             (statusValue (OverallStatus.Level (Overall (Status status)))) [])
       (and_then (exportCore (Core (Status status))) (exportAfterCore status))"

section \<open>The status client: scrapeKibana and CheckHealth (lines 381-435)\<close>

text \<open>
  What the code cannot decide is the environment's: whether \<open>net/url\<close> accepts the URL
  (\<open>url_Parse\<close> gives the error if it does not), what the \<open>n\<close>-th call of
  \<open>client.Do\<close> of this process comes back with (\<open>Do_result\<close>: a transport or timeout
  error, or a response; redirects are followed inside the call), and what
  \<open>encoding/json\<close> makes of a body (\<open>json_Decode\<close>). A body is a stream:
  \<open>io.ReadAll\<close> returns the bytes read and, if reading broke off, the error. The state
  of the client is the number of calls of \<open>client.Do\<close> made so far.
\<close>

record Config =
  KibanaURL :: string
  Username :: string
  Password :: string
  Timeout :: int
  InsecureSkipVerify :: bool

record Request =
  Method :: string
  URL :: string
  BasicAuth :: "(string \<times> string) option"
  Header :: "(string \<times> string) list"

record Stream =
  bytes :: string
  failure :: "string option"

record Response =
  StatusCode :: int
  Body :: Stream

record Environment =
  url_Parse :: "string \<Rightarrow> string option"
  Do_result :: "nat \<Rightarrow> Request \<Rightarrow> string + Response"
  json_Decode :: "Stream \<Rightarrow> string + KibanaStatus"

text \<open>
  The errors the two functions return: an error of the standard library passed on as it
  is, or one of the five \<open>fmt.Errorf\<close> of lines 399-431, each with what it carries.
  The specification's network error is \<open>MakingRequest\<close>, its unexpected status error
  \<open>UnexpectedStatus\<close> and its decode error \<open>DecodingResponse\<close>.
\<close>

datatype Error =
  Passed string
  | CreatingRequest string
  | MakingRequest string
  | UnexpectedStatus int string
  | DecodingResponse string
  | KibanaReturnedStatus int

definition NewRequest :: "Environment \<Rightarrow> string \<Rightarrow> string \<Rightarrow> string + Request" where
  "NewRequest env meth url =
     (case url_Parse env url of
        Some err \<Rightarrow> Inl err
      | None \<Rightarrow> Inr \<lparr>Method = meth, URL = url, BasicAuth = None, Header = []\<rparr>)"

text \<open>Lines 387-390 and 411-414: basic authentication if a user name is set, and the header.\<close>

definition authorize :: "Config \<Rightarrow> Request \<Rightarrow> Request" where
  "authorize c req =
     (let req1 = (if Username c \<noteq> [] then req\<lparr>BasicAuth := Some (Username c, Password c)\<rparr>
                  else req)
      in req1\<lparr>Header := (''kbn-xsrf'', ''true'') # Header req1\<rparr>)"

definition client_Do :: "Environment \<Rightarrow> nat \<Rightarrow> Request \<Rightarrow> (string + Response) \<times> nat" where
  "client_Do env n req = (Do_result env n req, Suc n)"

definition ReadAll :: "Stream \<Rightarrow> string \<times> string option" where
  "ReadAll b = (bytes b, failure b)"

definition scrapeKibana :: "Environment \<Rightarrow> Config \<Rightarrow> nat \<Rightarrow> (Error + KibanaStatus) \<times> nat" where
  "scrapeKibana env c n =
     (case NewRequest env ''GET'' (KibanaURL c @ ''/api/status'') of
        Inl err \<Rightarrow> (Inl (CreatingRequest err), n)
      | Inr req \<Rightarrow>
          (case client_Do env n (authorize c req) of
             (Inl err, n') \<Rightarrow> (Inl (MakingRequest err), n')
           | (Inr resp, n') \<Rightarrow>
               if StatusCode resp \<noteq> 200
               then (Inl (UnexpectedStatus (StatusCode resp) (fst (ReadAll (Body resp)))), n')
               else (case json_Decode env (Body resp) of
                       Inl err \<Rightarrow> (Inl (DecodingResponse err), n')
                     | Inr status \<Rightarrow> (Inr status, n'))))"

definition CheckHealth :: "Environment \<Rightarrow> Config \<Rightarrow> nat \<Rightarrow> Error option \<times> nat" where
  "CheckHealth env c n =
     (case NewRequest env ''GET'' (KibanaURL c @ ''/api/status'') of
        Inl err \<Rightarrow> (Some (Passed err), n)
      | Inr req \<Rightarrow>
          (case client_Do env n (authorize c req) of
             (Inl err, n') \<Rightarrow> (Some (Passed err), n')
           | (Inr resp, n') \<Rightarrow>
               if StatusCode resp \<noteq> 200
               then (Some (KibanaReturnedStatus (StatusCode resp)), n')
               else (None, n')))"

text \<open>
  The \<open>/ready\<close> handler of the main package (lines 95-104): the status it writes, 503
  with the error or 200.
\<close>

definition ready_handler :: "Environment \<Rightarrow> Config \<Rightarrow> nat \<Rightarrow> (int \<times> Error option) \<times> nat" where
  "ready_handler env c n =
     (case CheckHealth env c n of
        (Some err, n') \<Rightarrow> ((503, Some err), n')
      | (None, n') \<Rightarrow> ((200, None), n'))"

section \<open>Collect (lines 356-378)\<close>

text \<open>
  \<open>time.Duration\<close> counts nanoseconds; \<open>Seconds\<close> is that count over \<open>10^9\<close>.
  \<open>elapsed\<close> is what \<open>time.Since(start)\<close> returns. The lock and the log line have no
  part in what a single pass sends and are not modelled.
\<close>

definition Seconds :: "int \<Rightarrow> float64" where
  "Seconds d = real_of_int d / 1000000000"

definition Collect :: "Environment \<Rightarrow> Config \<Rightarrow> nat \<Rightarrow> int \<Rightarrow> Run \<times> nat" where
  "Collect env c n elapsed =
     (case scrapeKibana env c n of
        (result, n') \<Rightarrow>
          (let duration = Seconds elapsed;
               first = MustNewConstMetric scrapeDuration GaugeValue duration []
           in case result of
                Inl err \<Rightarrow>
                  (Completed [first,
                              MustNewConstMetric up GaugeValue 0 [],
                              MustNewConstMetric scrapeSuccess GaugeValue 0 []], n')
              | Inr status \<Rightarrow>
                  (send first
                     (send (MustNewConstMetric up GaugeValue 1 [])
                        (send (MustNewConstMetric scrapeSuccess GaugeValue 1 [])
                           (exportStatus status))), n')))"

section \<open>What a pass has sent\<close>

text \<open>
  The samples of a descriptor among those sent, and those of one combination of
  descriptor and label values.
\<close>

definition samples_for :: "DescRef \<Rightarrow> string list \<Rightarrow> Sample list \<Rightarrow> Sample list" where
  "samples_for d ls out = filter (\<lambda>s. desc s = d \<and> labelValues s = ls) out"

definition samples_of :: "DescRef \<Rightarrow> Sample list \<Rightarrow> Sample list" where
  "samples_of d out = filter (\<lambda>s. desc s = d) out"

text \<open>
  The keys of a map, and the optional fields that lie behind a chain of pointers, each
  read the way the checks of \<open>exportStatus\<close> reach it: \<open>None\<close> as soon as one
  pointer on the way is nil.
\<close>

definition keys :: "('k, 'v) gomap \<Rightarrow> 'k list" where
  "keys m = map fst m"

definition heap_field :: "KibanaStatus \<Rightarrow> HeapMetrics option" where
  "heap_field st = Option.bind (ProcessMetrics.Memory (Process (Metrics st))) Heap"

definition resident_field :: "KibanaStatus \<Rightarrow> int64 option" where
  "resident_field st = Option.bind (ProcessMetrics.Memory (Process (Metrics st))) Resident"

definition total_field :: "KibanaStatus \<Rightarrow> int64 option" where
  "total_field st = Option.bind (Requests (Metrics st)) Total"

definition disconnects_field :: "KibanaStatus \<Rightarrow> int64 option" where
  "disconnects_field st = Option.bind (Requests (Metrics st)) Disconnects"

definition status_codes_field :: "KibanaStatus \<Rightarrow> (string, int) gomap" where
  "status_codes_field st =
     (case Option.bind (Requests (Metrics st)) StatusCodes of None \<Rightarrow> [] | Some codes \<Rightarrow> codes)"

definition avg_field :: "KibanaStatus \<Rightarrow> float64 option" where
  "avg_field st = Option.bind (ResponseTimes (Metrics st)) Avg"

definition max_field :: "KibanaStatus \<Rightarrow> float64 option" where
  "max_field st = Option.bind (ResponseTimes (Metrics st)) Max'"

definition cpu_percent_field :: "KibanaStatus \<Rightarrow> float64 option" where
  "cpu_percent_field st =
     Option.bind (Option.bind (Option.bind (OS (Metrics st)) CPU) ControlGroup) CPUPercent"

definition load_field :: "(LoadMetrics \<Rightarrow> float64 option) \<Rightarrow> KibanaStatus \<Rightarrow> float64 option" where
  "load_field f st = Option.bind (Option.bind (OS (Metrics st)) Load) f"

definition os_memory_field :: "(OSMemoryMetrics \<Rightarrow> int64 option) \<Rightarrow> KibanaStatus \<Rightarrow> int64 option" where
  "os_memory_field f st = Option.bind (Option.bind (OS (Metrics st)) OSMetrics.Memory) f"

text \<open>A Go map holds each key once.\<close>

definition well_formed :: "KibanaStatus \<Rightarrow> bool" where
  "well_formed st =
     (distinct (keys (Core (Status st))) \<and> distinct (keys (Plugins (Status st)))
      \<and> distinct (keys (status_codes_field st)))"

text \<open>
  The number of samples each combination of descriptor and label values is due, read off
  the translation table of the specification row by row, with two changes the code makes:
  the three heap gauges follow the heap object and not its scalar members, and a status
  code named like one of the two fixed labels of \<open>requests_total\<close> counts for the same
  combination as that label.
\<close>

fun driven :: "KibanaStatus \<Rightarrow> DescRef \<Rightarrow> string list \<Rightarrow> nat" where
  "driven st statusOverall ls = of_bool (ls = [])"
| "driven st statusCore ls = of_bool (\<exists>name \<in> set (keys (Core (Status st))). ls = [name])"
| "driven st statusElastic ls =
     of_bool (ls = [] \<and> ''elasticsearch'' \<in> set (keys (Core (Status st))))"
| "driven st statusSavedObjects ls =
     of_bool (ls = [] \<and> ''savedObjects'' \<in> set (keys (Core (Status st))))"
| "driven st heapTotal ls = of_bool (ls = [] \<and> heap_field st \<noteq> None)"
| "driven st heapUsed ls = of_bool (ls = [] \<and> heap_field st \<noteq> None)"
| "driven st heapSizeLimit ls = of_bool (ls = [] \<and> heap_field st \<noteq> None)"
| "driven st residentSet ls = of_bool (ls = [] \<and> resident_field st \<noteq> None)"
| "driven st eventLoop ls = of_bool (ls = [] \<and> EventLoopDelay (Process (Metrics st)) \<noteq> None)"
| "driven st uptime ls = of_bool (ls = [] \<and> Uptime (Process (Metrics st)) \<noteq> None)"
| "driven st requestsTotal ls =
     of_bool (ls = [''total''] \<and> total_field st \<noteq> None)
     + of_bool (ls = [''disconnects''] \<and> disconnects_field st \<noteq> None)
     + of_bool (\<exists>code \<in> set (keys (status_codes_field st)). ls = [code])"
| "driven st concurrentConn ls = of_bool (ls = [] \<and> ConcurrentConnections (Metrics st) \<noteq> None)"
| "driven st responseTime ls =
     of_bool (ls = [''avg''] \<and> avg_field st \<noteq> None)
     + of_bool (ls = [''max''] \<and> max_field st \<noteq> None)"
| "driven st osCPUPercent ls = of_bool (ls = [] \<and> cpu_percent_field st \<noteq> None)"
| "driven st osLoadAvg1m ls = of_bool (ls = [] \<and> load_field Load1m st \<noteq> None)"
| "driven st osLoadAvg5m ls = of_bool (ls = [] \<and> load_field Load5m st \<noteq> None)"
| "driven st osLoadAvg15m ls = of_bool (ls = [] \<and> load_field Load15m st \<noteq> None)"
| "driven st osMemTotal ls = of_bool (ls = [] \<and> os_memory_field OSMemoryMetrics.TotalBytes st \<noteq> None)"
| "driven st osMemFree ls = of_bool (ls = [] \<and> os_memory_field FreeBytes st \<noteq> None)"
| "driven st osMemUsed ls = of_bool (ls = [] \<and> os_memory_field OSMemoryMetrics.UsedBytes st \<noteq> None)"
| "driven st up ls = 0"
| "driven st processMemory ls = 0"
| "driven st scrapeDuration ls = 0"
| "driven st scrapeSuccess ls = 0"

section \<open>Documents and environments to evaluate on\<close>

text \<open>
  Documents as the decoder returns them, built from the zero value: \<open>scenario\<close> is
  the end-to-end document of the specification,
  \<^verbatim>\<open>{"status":{"overall":{"level":"green"},"core":{"elasticsearch":{"level":"available"}}},
  "metrics":{"process":{"memory":{"heap":{"total_in_bytes":100,"used_in_bytes":50,"size_limit":200}}}}}\<close>,
  and \<open>empty_heap_and_total_code\<close> is
  \<^verbatim>\<open>{"metrics":{"process":{"memory":{"heap":{}}},"requests":{"total":3,"status_codes":{"total":5}}}}\<close>.
\<close>

definition with_level :: "string \<Rightarrow> KibanaStatus \<Rightarrow> KibanaStatus" where
  "with_level l st =
     st\<lparr>Status := (Status st)\<lparr>Overall := \<lparr>OverallStatus.Level = l, OverallStatus.Summary = []\<rparr>\<rparr>\<rparr>"

definition with_core :: "(string, ServiceStatus option) gomap \<Rightarrow> KibanaStatus \<Rightarrow> KibanaStatus" where
  "with_core m st = st\<lparr>Status := (Status st)\<lparr>Core := m\<rparr>\<rparr>"

definition with_heap :: "HeapMembers \<Rightarrow> KibanaStatus \<Rightarrow> KibanaStatus" where
  "with_heap j st =
     st\<lparr>Metrics := (Metrics st)\<lparr>Process := (Process (Metrics st))
       \<lparr>ProcessMetrics.Memory := Some \<lparr>Heap = Some (decode_HeapMetrics j), Resident = None\<rparr>\<rparr>\<rparr>\<rparr>"

definition with_requests :: "RequestMetrics \<Rightarrow> KibanaStatus \<Rightarrow> KibanaStatus" where
  "with_requests r st = st\<lparr>Metrics := (Metrics st)\<lparr>Requests := Some r\<rparr>\<rparr>"

definition scenario :: KibanaStatus where
  "scenario =
     with_level ''green''
       (with_core [(''elasticsearch'', Some \<lparr>Level = ''available'', Summary = []\<rparr>)]
          (with_heap \<lparr>total_in_bytes = Some 100, used_in_bytes = Some 50, size_limit = Some 200\<rparr>
             zero_KibanaStatus))"

definition empty_heap_and_total_code :: KibanaStatus where
  "empty_heap_and_total_code =
     with_requests \<lparr>Total = Some 3, Disconnects = None, StatusCodes = Some [(''total'', 5)]\<rparr>
       (with_heap \<lparr>total_in_bytes = None, used_in_bytes = None, size_limit = None\<rparr>
          zero_KibanaStatus)"

text \<open>
  \<open>status_request\<close> is the request both functions of the client send once the URL has
  parsed. \<open>default_Config\<close> holds the defaults of the command line. The environments:
  \<open>answering code body st\<close> accepts every URL, answers every request with the status
  \<open>code\<close> and \<open>body\<close>, and decodes every body to \<open>st\<close>; \<open>timing_out\<close> fails
  every request in the transport; \<open>malformed\<close> answers 200 with a body the decoder
  rejects; \<open>rejecting_control_bytes\<close> refuses a URL that holds an ASCII control
  character, as \<open>net/url\<close> does, and \<open>newline_Config\<close> is a configuration whose URL
  ends in a line feed. The documents: \<open>timings\<close> is
  \<^verbatim>\<open>{"metrics":{"process":{"event_loop_delay":250,"uptime_in_millis":60000},
  "response_times":{"avg_in_millis":12,"max_in_millis":40}}}\<close>, \<open>null_core\<close> is
  \<^verbatim>\<open>{"status":{"core":{"elasticsearch":null}}}\<close>, and \<open>null_core_with_heap\<close> adds
  \<^verbatim>\<open>"metrics":{"process":{"memory":{"heap":{"total_in_bytes":100}}}}\<close> to it.
\<close>

definition status_request :: "Config \<Rightarrow> Request" where
  "status_request c =
     authorize c \<lparr>Method = ''GET'', URL = KibanaURL c @ ''/api/status'', BasicAuth = None, Header = []\<rparr>"

definition default_Config :: Config where
  "default_Config =
     \<lparr>KibanaURL = ''http://localhost:5601'', Username = [], Password = [],
      Timeout = 10000000000, InsecureSkipVerify = False\<rparr>"

definition answering :: "int \<Rightarrow> Stream \<Rightarrow> KibanaStatus \<Rightarrow> Environment" where
  "answering code body st =
     \<lparr>url_Parse = (\<lambda>u. None),
      Do_result = (\<lambda>n req. Inr \<lparr>StatusCode = code, Body = body\<rparr>),
      json_Decode = (\<lambda>b. Inr st)\<rparr>"

definition whole :: "string \<Rightarrow> Stream" where
  "whole text = \<lparr>bytes = text, failure = None\<rparr>"

definition timing_out :: Environment where
  "timing_out =
     (answering 200 (whole []) zero_KibanaStatus)
       \<lparr>Do_result := (\<lambda>n req. Inl ''context deadline exceeded'')\<rparr>"

definition malformed :: Environment where
  "malformed =
     (answering 200 (whole ''<html>'') zero_KibanaStatus)
       \<lparr>json_Decode := (\<lambda>b. Inl ''invalid character <'')\<rparr>"

definition has_control_byte :: "string \<Rightarrow> bool" where
  "has_control_byte u = (\<exists>ch \<in> set u. of_char ch < (32::nat) \<or> of_char ch = (127::nat))"

definition rejecting_control_bytes :: Environment where
  "rejecting_control_bytes =
     (answering 200 (whole []) zero_KibanaStatus)
       \<lparr>url_Parse := (\<lambda>u. if has_control_byte u
                            then Some ''net/url: invalid control character in URL'' else None)\<rparr>"

definition newline_Config :: Config where
  "newline_Config = default_Config\<lparr>KibanaURL := ''http://kibana:5601'' @ [CHR 0x0A]\<rparr>"

definition timings :: KibanaStatus where
  "timings =
     zero_KibanaStatus\<lparr>Metrics := (Metrics zero_KibanaStatus)
       \<lparr>Process := \<lparr>ProcessMetrics.Memory = None, EventLoopDelay = Some 250, Uptime = Some 60000\<rparr>,
        ResponseTimes := Some \<lparr>Avg = Some 12, Max' = Some 40\<rparr>\<rparr>\<rparr>"

definition null_core :: KibanaStatus where
  "null_core = with_core [(''elasticsearch'', None)] zero_KibanaStatus"

definition null_core_with_heap :: KibanaStatus where
  "null_core_with_heap =
     with_core [(''elasticsearch'', None)]
       (with_heap \<lparr>total_in_bytes = Some 100, used_in_bytes = None, size_limit = None\<rparr>
          zero_KibanaStatus)"

section \<open>Lemmas on runs and on the blocks of the translation\<close>

lemmas example_defs = with_level_def with_core_def with_heap_def with_requests_def
  zero_KibanaStatus_def decode_HeapMetrics_def

lemmas block_defs = exportStatus_def exportAfterCore_def exportElasticsearch_def
  exportSavedObjects_def exportProcessMemory_def exportEventLoop_def exportUptime_def
  exportRequests_def exportConcurrentConnections_def exportResponseTimes_def exportOS_def
  exportCPU_def exportLoad_def exportOSMemory_def index_map_def statusValue_def

lemma emitted_send: "emitted (send s r) = s # emitted r"
  by (cases r) simp_all

lemma completed_send: "completed (send s r) = completed r"
  by (cases r) simp_all

lemma emitted_and_then: "emitted (and_then r xs) = emitted r @ (if completed r then xs else [])"
  by (cases r) simp_all

lemma completed_and_then: "completed (and_then r xs) = completed r"
  by (cases r) simp_all

lemma completed_exportCore: "completed (exportCore m) = (None \<notin> snd ` set m)"
  by (induction m rule: exportCore.induct) (auto simp: completed_send)

lemma completed_exportStatus: "completed (exportStatus st) = (None \<notin> snd ` set (Core (Status st)))"
  by (simp add: exportStatus_def completed_send completed_and_then completed_exportCore)

lemma emitted_exportStatus:
  "emitted (exportStatus st) =
     MustNewConstMetric statusOverall GaugeValue
       (statusValue (OverallStatus.Level (Overall (Status st)))) []
     # emitted (exportCore (Core (Status st)))
     @ (if completed (exportStatus st) then exportAfterCore st else [])"
  by (simp add: exportStatus_def emitted_send emitted_and_then completed_send completed_and_then)

lemma samples_for_append: "samples_for d ls (xs @ ys) = samples_for d ls xs @ samples_for d ls ys"
  by (simp add: samples_for_def)

lemma samples_for_Nil: "samples_for d ls [] = []"
  by (simp add: samples_for_def)

lemma samples_for_Cons:
  "samples_for d ls (MustNewConstMetric d' t v ls' # xs) =
     (if d' = d \<and> ls' = ls then MustNewConstMetric d' t v ls' # samples_for d ls xs
      else samples_for d ls xs)"
  by (simp add: samples_for_def MustNewConstMetric_def)

lemma samples_for_other: "(\<And>s. s \<in> set xs \<Longrightarrow> desc s \<noteq> d) \<Longrightarrow> samples_for d ls xs = []"
  by (auto simp: samples_for_def filter_empty_conv)

lemma desc_exportCore: "s \<in> set (emitted (exportCore m)) \<Longrightarrow> desc s = statusCore"
  by (induction m rule: exportCore.induct) (auto simp: emitted_send MustNewConstMetric_def)

lemma desc_exportStatusCodes: "s \<in> set (exportStatusCodes m) \<Longrightarrow> desc s = requestsTotal"
  by (induction m rule: exportStatusCodes.induct) (auto simp: MustNewConstMetric_def)

text \<open>Counting in the two loops.\<close>

lemma count_exportCore:
  "distinct (keys m) \<Longrightarrow> None \<notin> snd ` set m \<Longrightarrow>
   length (samples_for d ls (emitted (exportCore m)))
     = of_bool (d = statusCore \<and> (\<exists>name \<in> set (keys m). ls = [name]))"
proof (induction m rule: exportCore.induct)
  case 1
  then show ?case by (simp add: samples_for_Nil keys_def)
next
  case (2 name entries)
  then show ?case by simp
next
  case (3 name svc entries)
  then show ?case
    by (auto simp: emitted_send samples_for_Cons keys_def)
qed

lemma count_exportStatusCodes:
  "distinct (keys m) \<Longrightarrow>
   length (samples_for d ls (exportStatusCodes m))
     = of_bool (d = requestsTotal \<and> (\<exists>code \<in> set (keys m). ls = [code]))"
proof (induction m rule: exportStatusCodes.induct)
  case 1
  then show ?case by (simp add: samples_for_Nil keys_def)
next
  case (2 code count entries)
  then show ?case
    by (auto simp: samples_for_Cons keys_def)
qed

lemma index_map_present:
  "None \<notin> snd ` set m \<Longrightarrow> (index_map m k \<noteq> None) = (k \<in> set (keys m))"
  by (induction m) (auto simp: index_map_def keys_def split: option.splits)

lemma count_exportElasticsearch:
  "None \<notin> snd ` set (Core (Status st)) \<Longrightarrow>
   length (samples_for d ls (exportElasticsearch st))
     = of_bool (d = statusElastic \<and> ls = [] \<and> ''elasticsearch'' \<in> set (keys (Core (Status st))))"
  using index_map_present [of "Core (Status st)" "''elasticsearch''"]
  by (auto simp: exportElasticsearch_def samples_for_Cons samples_for_Nil split: option.splits)

lemma count_exportSavedObjects:
  "None \<notin> snd ` set (Core (Status st)) \<Longrightarrow>
   length (samples_for d ls (exportSavedObjects st))
     = of_bool (d = statusSavedObjects \<and> ls = [] \<and> ''savedObjects'' \<in> set (keys (Core (Status st))))"
  using index_map_present [of "Core (Status st)" "''savedObjects''"]
  by (auto simp: exportSavedObjects_def samples_for_Cons samples_for_Nil split: option.splits)

lemma count_exportProcessMemory:
  "length (samples_for d ls (exportProcessMemory st))
     = of_bool (d = heapTotal \<and> ls = [] \<and> heap_field st \<noteq> None)
       + of_bool (d = heapUsed \<and> ls = [] \<and> heap_field st \<noteq> None)
       + of_bool (d = heapSizeLimit \<and> ls = [] \<and> heap_field st \<noteq> None)
       + of_bool (d = residentSet \<and> ls = [] \<and> resident_field st \<noteq> None)"
  by (auto simp: exportProcessMemory_def heap_field_def resident_field_def samples_for_Cons
      samples_for_Nil samples_for_append split: option.splits)

lemma count_exportEventLoop:
  "length (samples_for d ls (exportEventLoop st))
     = of_bool (d = eventLoop \<and> ls = [] \<and> EventLoopDelay (Process (Metrics st)) \<noteq> None)"
  by (auto simp: exportEventLoop_def samples_for_Cons samples_for_Nil split: option.splits)

lemma count_exportUptime:
  "length (samples_for d ls (exportUptime st))
     = of_bool (d = uptime \<and> ls = [] \<and> Uptime (Process (Metrics st)) \<noteq> None)"
  by (auto simp: exportUptime_def samples_for_Cons samples_for_Nil split: option.splits)

lemma count_one:
  "length (samples_for d ls [MustNewConstMetric d' t v ls']) = of_bool (d = d' \<and> ls = ls')"
  by (auto simp: samples_for_Cons samples_for_Nil)

lemma count_append:
  "length (samples_for d ls (xs @ ys)) = length (samples_for d ls xs) + length (samples_for d ls ys)"
  by (simp add: samples_for_append)

lemma count_exportRequests:
  assumes "distinct (keys (status_codes_field st))"
  shows "length (samples_for d ls (exportRequests st))
     = of_bool (d = requestsTotal \<and> ls = [''total''] \<and> total_field st \<noteq> None)
       + of_bool (d = requestsTotal \<and> ls = [''disconnects''] \<and> disconnects_field st \<noteq> None)
       + of_bool (d = requestsTotal \<and> (\<exists>code \<in> set (keys (status_codes_field st)). ls = [code]))"
proof (cases "Requests (Metrics st)")
  case None
  then show ?thesis
    by (simp add: exportRequests_def total_field_def disconnects_field_def
        status_codes_field_def samples_for_Nil keys_def)
next
  case (Some reqs)
  have total: "length (samples_for d ls
        (case Total reqs of None \<Rightarrow> []
         | Some t \<Rightarrow> [MustNewConstMetric requestsTotal CounterValue (real_of_int t) [''total'']]))
      = of_bool (d = requestsTotal \<and> ls = [''total''] \<and> total_field st \<noteq> None)"
    using Some by (auto simp: total_field_def samples_for_Cons samples_for_Nil split: option.splits)
  have disc: "length (samples_for d ls
        (case Disconnects reqs of None \<Rightarrow> []
         | Some t \<Rightarrow> [MustNewConstMetric requestsTotal CounterValue (real_of_int t) [''disconnects'']]))
      = of_bool (d = requestsTotal \<and> ls = [''disconnects''] \<and> disconnects_field st \<noteq> None)"
    using Some by (auto simp: disconnects_field_def samples_for_Cons samples_for_Nil split: option.splits)
  have codes: "length (samples_for d ls
        (case StatusCodes reqs of None \<Rightarrow> [] | Some codes \<Rightarrow> exportStatusCodes codes))
      = of_bool (d = requestsTotal \<and> (\<exists>code \<in> set (keys (status_codes_field st)). ls = [code]))"
  proof (cases "StatusCodes reqs")
    case None
    with Some show ?thesis by (simp add: status_codes_field_def samples_for_Nil keys_def)
  next
    case (Some codes)
    with \<open>Requests (Metrics st) = Some reqs\<close> have "status_codes_field st = codes"
      by (simp add: status_codes_field_def)
    with assms Some show ?thesis by (simp add: count_exportStatusCodes)
  qed
  show ?thesis
    using Some by (simp add: exportRequests_def count_append total disc codes)
qed

lemma count_exportConcurrentConnections:
  "length (samples_for d ls (exportConcurrentConnections st))
     = of_bool (d = concurrentConn \<and> ls = [] \<and> ConcurrentConnections (Metrics st) \<noteq> None)"
  by (auto simp: exportConcurrentConnections_def samples_for_Cons samples_for_Nil split: option.splits)

lemma count_exportResponseTimes:
  "length (samples_for d ls (exportResponseTimes st))
     = of_bool (d = responseTime \<and> ls = [''avg''] \<and> avg_field st \<noteq> None)
       + of_bool (d = responseTime \<and> ls = [''max''] \<and> max_field st \<noteq> None)"
  by (auto simp: exportResponseTimes_def avg_field_def max_field_def samples_for_Cons
      samples_for_Nil samples_for_append split: option.splits)

lemma count_exportCPU:
  "OS (Metrics st) = Some os \<Longrightarrow>
   length (samples_for d ls (exportCPU os))
     = of_bool (d = osCPUPercent \<and> ls = [] \<and> cpu_percent_field st \<noteq> None)"
  by (auto simp: exportCPU_def cpu_percent_field_def samples_for_Cons samples_for_Nil
      split: option.splits)

lemma count_exportLoad:
  "OS (Metrics st) = Some os \<Longrightarrow>
   length (samples_for d ls (exportLoad os))
     = of_bool (d = osLoadAvg1m \<and> ls = [] \<and> load_field Load1m st \<noteq> None)
       + of_bool (d = osLoadAvg5m \<and> ls = [] \<and> load_field Load5m st \<noteq> None)
       + of_bool (d = osLoadAvg15m \<and> ls = [] \<and> load_field Load15m st \<noteq> None)"
  by (auto simp: exportLoad_def load_field_def samples_for_Cons samples_for_Nil samples_for_append
      split: option.splits)

lemma count_exportOSMemory:
  "OS (Metrics st) = Some os \<Longrightarrow>
   length (samples_for d ls (exportOSMemory os))
     = of_bool (d = osMemTotal \<and> ls = [] \<and> os_memory_field OSMemoryMetrics.TotalBytes st \<noteq> None)
       + of_bool (d = osMemFree \<and> ls = [] \<and> os_memory_field FreeBytes st \<noteq> None)
       + of_bool (d = osMemUsed \<and> ls = [] \<and> os_memory_field OSMemoryMetrics.UsedBytes st \<noteq> None)"
  by (auto simp: exportOSMemory_def os_memory_field_def samples_for_Cons samples_for_Nil
      samples_for_append split: option.splits)

lemma count_exportOS:
  "length (samples_for d ls (exportOS st))
     = of_bool (d = osCPUPercent \<and> ls = [] \<and> cpu_percent_field st \<noteq> None)
       + of_bool (d = osLoadAvg1m \<and> ls = [] \<and> load_field Load1m st \<noteq> None)
       + of_bool (d = osLoadAvg5m \<and> ls = [] \<and> load_field Load5m st \<noteq> None)
       + of_bool (d = osLoadAvg15m \<and> ls = [] \<and> load_field Load15m st \<noteq> None)
       + of_bool (d = osMemTotal \<and> ls = [] \<and> os_memory_field OSMemoryMetrics.TotalBytes st \<noteq> None)
       + of_bool (d = osMemFree \<and> ls = [] \<and> os_memory_field FreeBytes st \<noteq> None)
       + of_bool (d = osMemUsed \<and> ls = [] \<and> os_memory_field OSMemoryMetrics.UsedBytes st \<noteq> None)"
proof (cases "OS (Metrics st)")
  case None
  then show ?thesis
    by (simp add: exportOS_def samples_for_Nil cpu_percent_field_def load_field_def
        os_memory_field_def)
next
  case (Some os)
  then show ?thesis
    by (simp add: exportOS_def samples_for_append count_exportCPU [OF Some]
        count_exportLoad [OF Some] count_exportOSMemory [OF Some])
qed

lemma count_exportAfterCore:
  assumes "None \<notin> snd ` set (Core (Status st))" and "distinct (keys (status_codes_field st))"
  shows "length (samples_for d ls (exportAfterCore st))
     = of_bool (d = statusElastic \<and> ls = [] \<and> ''elasticsearch'' \<in> set (keys (Core (Status st))))
       + of_bool (d = statusSavedObjects \<and> ls = [] \<and> ''savedObjects'' \<in> set (keys (Core (Status st))))
       + length (samples_for d ls (exportProcessMemory st))
       + of_bool (d = eventLoop \<and> ls = [] \<and> EventLoopDelay (Process (Metrics st)) \<noteq> None)
       + of_bool (d = uptime \<and> ls = [] \<and> Uptime (Process (Metrics st)) \<noteq> None)
       + length (samples_for d ls (exportRequests st))
       + of_bool (d = concurrentConn \<and> ls = [] \<and> ConcurrentConnections (Metrics st) \<noteq> None)
       + length (samples_for d ls (exportResponseTimes st))
       + length (samples_for d ls (exportOS st))"
  unfolding exportAfterCore_def count_append
  by (simp only: count_exportElasticsearch [OF assms(1)] count_exportSavedObjects [OF assms(1)]
      count_exportEventLoop count_exportUptime count_exportConcurrentConnections add.assoc)

lemmas environment_defs = answering_def whole_def timing_out_def malformed_def
  rejecting_control_bytes_def has_control_byte_def default_Config_def newline_Config_def
  status_request_def authorize_def NewRequest_def client_Do_def ReadAll_def

lemma samples_of_Cons:
  "samples_of d (MustNewConstMetric d' t v ls # xs) =
     (if d' = d then MustNewConstMetric d' t v ls # samples_of d xs else samples_of d xs)"
  by (simp add: samples_of_def MustNewConstMetric_def)

lemma samples_of_Nil: "samples_of d [] = []"
  by (simp add: samples_of_def)

lemma samples_of_append: "samples_of d (xs @ ys) = samples_of d xs @ samples_of d ys"
  by (simp add: samples_of_def)

lemma samples_of_other: "(\<And>s. s \<in> set xs \<Longrightarrow> desc s \<noteq> d) \<Longrightarrow> samples_of d xs = []"
  by (auto simp: samples_of_def filter_empty_conv)

lemma samples_for_samples_of: "samples_of d xs = [] \<Longrightarrow> samples_for d ls xs = []"
  by (auto simp: samples_of_def samples_for_def filter_empty_conv)

lemma desc_exportElasticsearch: "s \<in> set (exportElasticsearch st) \<Longrightarrow> desc s = statusElastic"
  by (auto simp: exportElasticsearch_def MustNewConstMetric_def split: option.splits)

lemma desc_exportSavedObjects: "s \<in> set (exportSavedObjects st) \<Longrightarrow> desc s = statusSavedObjects"
  by (auto simp: exportSavedObjects_def MustNewConstMetric_def split: option.splits)

lemma desc_exportProcessMemory:
  "s \<in> set (exportProcessMemory st) \<Longrightarrow> desc s \<in> {heapTotal, heapUsed, heapSizeLimit, residentSet}"
  by (auto simp: exportProcessMemory_def MustNewConstMetric_def split: option.splits)

lemma desc_exportEventLoop: "s \<in> set (exportEventLoop st) \<Longrightarrow> desc s = eventLoop"
  by (auto simp: exportEventLoop_def MustNewConstMetric_def split: option.splits)

lemma desc_exportUptime: "s \<in> set (exportUptime st) \<Longrightarrow> desc s = uptime"
  by (auto simp: exportUptime_def MustNewConstMetric_def split: option.splits)

lemma desc_exportRequests: "s \<in> set (exportRequests st) \<Longrightarrow> desc s = requestsTotal"
  by (auto simp: exportRequests_def MustNewConstMetric_def split: option.splits
      dest: desc_exportStatusCodes)

lemma desc_exportConcurrentConnections:
  "s \<in> set (exportConcurrentConnections st) \<Longrightarrow> desc s = concurrentConn"
  by (auto simp: exportConcurrentConnections_def MustNewConstMetric_def split: option.splits)

lemma desc_exportResponseTimes: "s \<in> set (exportResponseTimes st) \<Longrightarrow> desc s = responseTime"
  by (auto simp: exportResponseTimes_def MustNewConstMetric_def split: option.splits)

lemma desc_exportOS:
  "s \<in> set (exportOS st) \<Longrightarrow>
   desc s \<in> {osCPUPercent, osLoadAvg1m, osLoadAvg5m, osLoadAvg15m, osMemTotal, osMemFree, osMemUsed}"
  by (auto simp: exportOS_def exportCPU_def exportLoad_def exportOSMemory_def
      MustNewConstMetric_def split: option.splits)

lemma samples_of_exportCore: "d \<noteq> statusCore \<Longrightarrow> samples_of d (emitted (exportCore m)) = []"
  by (rule samples_of_other) (auto dest: desc_exportCore)

lemma samples_of_exportElasticsearch:
  "d \<noteq> statusElastic \<Longrightarrow> samples_of d (exportElasticsearch st) = []"
  by (rule samples_of_other) (auto dest: desc_exportElasticsearch)

lemma samples_of_exportSavedObjects:
  "d \<noteq> statusSavedObjects \<Longrightarrow> samples_of d (exportSavedObjects st) = []"
  by (rule samples_of_other) (auto dest: desc_exportSavedObjects)

lemma samples_of_exportProcessMemory:
  "d \<notin> {heapTotal, heapUsed, heapSizeLimit, residentSet} \<Longrightarrow>
   samples_of d (exportProcessMemory st) = []"
  by (rule samples_of_other) (auto dest: desc_exportProcessMemory)

lemma samples_of_exportEventLoop: "d \<noteq> eventLoop \<Longrightarrow> samples_of d (exportEventLoop st) = []"
  by (rule samples_of_other) (auto dest: desc_exportEventLoop)

lemma samples_of_exportUptime: "d \<noteq> uptime \<Longrightarrow> samples_of d (exportUptime st) = []"
  by (rule samples_of_other) (auto dest: desc_exportUptime)

lemma samples_of_exportRequests: "d \<noteq> requestsTotal \<Longrightarrow> samples_of d (exportRequests st) = []"
  by (rule samples_of_other) (auto dest: desc_exportRequests)

lemma samples_of_exportConcurrentConnections:
  "d \<noteq> concurrentConn \<Longrightarrow> samples_of d (exportConcurrentConnections st) = []"
  by (rule samples_of_other) (auto dest: desc_exportConcurrentConnections)

lemma samples_of_exportResponseTimes:
  "d \<noteq> responseTime \<Longrightarrow> samples_of d (exportResponseTimes st) = []"
  by (rule samples_of_other) (auto dest: desc_exportResponseTimes)

lemma samples_of_exportOS:
  "d \<notin> {osCPUPercent, osLoadAvg1m, osLoadAvg5m, osLoadAvg15m, osMemTotal, osMemFree, osMemUsed}
   \<Longrightarrow> samples_of d (exportOS st) = []"
  by (rule samples_of_other) (auto dest: desc_exportOS)

lemmas samples_of_blocks = samples_of_exportCore samples_of_exportElasticsearch
  samples_of_exportSavedObjects samples_of_exportProcessMemory samples_of_exportEventLoop
  samples_of_exportUptime samples_of_exportRequests samples_of_exportConcurrentConnections
  samples_of_exportResponseTimes samples_of_exportOS

lemma Collect_failure:
  "fst (scrapeKibana env c n) = Inl err \<Longrightarrow>
   fst (Collect env c n elapsed) =
     Completed [MustNewConstMetric scrapeDuration GaugeValue (Seconds elapsed) [],
                MustNewConstMetric up GaugeValue 0 [],
                MustNewConstMetric scrapeSuccess GaugeValue 0 []]"
  by (cases "scrapeKibana env c n") (simp add: Collect_def)

lemma Collect_success:
  "fst (scrapeKibana env c n) = Inr st \<Longrightarrow>
   fst (Collect env c n elapsed) =
     send (MustNewConstMetric scrapeDuration GaugeValue (Seconds elapsed) [])
       (send (MustNewConstMetric up GaugeValue 1 [])
          (send (MustNewConstMetric scrapeSuccess GaugeValue 1 []) (exportStatus st)))"
  by (cases "scrapeKibana env c n") (simp add: Collect_def)

lemma samples_of_exportStatus:
  "samples_of d (emitted (exportStatus st)) =
     samples_of d [MustNewConstMetric statusOverall GaugeValue
                     (statusValue (OverallStatus.Level (Overall (Status st)))) []]
     @ samples_of d (emitted (exportCore (Core (Status st))))
     @ (if completed (exportStatus st) then samples_of d (exportAfterCore st) else [])"
  by (simp add: emitted_exportStatus samples_of_def)

lemma samples_for_exportStatus:
  "samples_for d ls (emitted (exportStatus st)) =
     samples_for d ls [MustNewConstMetric statusOverall GaugeValue
                     (statusValue (OverallStatus.Level (Overall (Status st)))) []]
     @ samples_for d ls (emitted (exportCore (Core (Status st))))
     @ (if completed (exportStatus st) then samples_for d ls (exportAfterCore st) else [])"
  by (simp add: emitted_exportStatus samples_for_def)

lemma samples_of_Collect_success:
  "fst (scrapeKibana env c n) = Inr st \<Longrightarrow>
   samples_of d (emitted (fst (Collect env c n elapsed))) =
     samples_of d [MustNewConstMetric scrapeDuration GaugeValue (Seconds elapsed) [],
                   MustNewConstMetric up GaugeValue 1 [],
                   MustNewConstMetric scrapeSuccess GaugeValue 1 []]
     @ samples_of d (emitted (exportStatus st))"
  by (simp add: Collect_success emitted_send samples_of_def)

lemma samples_for_Collect_success:
  "fst (scrapeKibana env c n) = Inr st \<Longrightarrow>
   samples_for d ls (emitted (fst (Collect env c n elapsed))) =
     samples_for d ls [MustNewConstMetric scrapeDuration GaugeValue (Seconds elapsed) [],
                   MustNewConstMetric up GaugeValue 1 [],
                   MustNewConstMetric scrapeSuccess GaugeValue 1 []]
     @ samples_for d ls (emitted (exportStatus st))"
  by (simp add: Collect_success emitted_send samples_for_def)

lemma completed_Collect_success:
  "fst (scrapeKibana env c n) = Inr st \<Longrightarrow>
   completed (fst (Collect env c n elapsed)) = completed (exportStatus st)"
  by (simp add: Collect_success completed_send)

lemma samples_of_statusOverall_after: "samples_of statusOverall (exportAfterCore st) = []"
  by (simp add: exportAfterCore_def samples_of_append samples_of_blocks)

lemma samples_of_processMemory_after: "samples_of processMemory (exportAfterCore st) = []"
  by (simp add: exportAfterCore_def samples_of_append samples_of_blocks)

lemma scrape_answering: "scrapeKibana (answering 200 body st) c n = (Inr st, Suc n)"
  by (simp add: scrapeKibana_def environment_defs)

lemma samples_for_eventLoop_after:
  "samples_for eventLoop [] (exportAfterCore st) = exportEventLoop st"
  by (simp add: exportAfterCore_def samples_for_append samples_for_samples_of samples_of_blocks)
     (simp add: exportEventLoop_def samples_for_Cons samples_for_Nil split: option.splits)

lemma samples_for_uptime_after:
  "samples_for uptime [] (exportAfterCore st) = exportUptime st"
  by (simp add: exportAfterCore_def samples_for_append samples_for_samples_of samples_of_blocks)
     (simp add: exportUptime_def samples_for_Cons samples_for_Nil split: option.splits)

lemma samples_for_responseTime_after:
  "samples_for responseTime ls (exportAfterCore st) = samples_for responseTime ls (exportResponseTimes st)"
  by (simp add: exportAfterCore_def samples_for_append samples_for_samples_of samples_of_blocks)

lemma samples_for_avg:
  "avg_field st = Some x \<Longrightarrow>
   samples_for responseTime [''avg''] (exportResponseTimes st)
     = [MustNewConstMetric responseTime GaugeValue (x / 1000) [''avg'']]"
  by (auto simp: avg_field_def exportResponseTimes_def samples_for_append samples_for_Cons
      samples_for_Nil split: option.splits Option.bind_splits)

lemma samples_for_max:
  "max_field st = Some x \<Longrightarrow>
   samples_for responseTime [''max''] (exportResponseTimes st)
     = [MustNewConstMetric responseTime GaugeValue (x / 1000) [''max'']]"
  by (auto simp: max_field_def exportResponseTimes_def samples_for_append samples_for_Cons
      samples_for_Nil split: option.splits Option.bind_splits)

lemma samples_for_after_core_only:
  assumes "fst (scrapeKibana env c n) = Inr st"
    and "d \<notin> {scrapeDuration, up, scrapeSuccess, statusOverall, statusCore}"
  shows "samples_for d ls (emitted (fst (Collect env c n elapsed))) =
     (if completed (fst (Collect env c n elapsed)) then samples_for d ls (exportAfterCore st) else [])"
  using assms(2)
  by (auto simp: samples_for_Collect_success [OF assms(1)] completed_Collect_success [OF assms(1)]
      samples_for_exportStatus samples_for_Cons samples_for_Nil samples_for_samples_of
      samples_of_exportCore)

lemma heap_gauges:
  assumes "heap_field st = Some (decode_HeapMetrics j)" and "None \<notin> snd ` set (Core (Status st))"
  shows "samples_of heapTotal (emitted (exportStatus st)) =
       [MustNewConstMetric heapTotal GaugeValue
          (case total_in_bytes j of None \<Rightarrow> 0 | Some v \<Rightarrow> real_of_int v) []]
    \<and> samples_of heapUsed (emitted (exportStatus st)) =
       [MustNewConstMetric heapUsed GaugeValue
          (case used_in_bytes j of None \<Rightarrow> 0 | Some v \<Rightarrow> real_of_int v) []]
    \<and> samples_of heapSizeLimit (emitted (exportStatus st)) =
       [MustNewConstMetric heapSizeLimit GaugeValue
          (case size_limit j of None \<Rightarrow> 0 | Some v \<Rightarrow> real_of_int v) []]"
proof -
  have mem: "samples_of heapTotal (exportProcessMemory st) =
       [MustNewConstMetric heapTotal GaugeValue
          (case total_in_bytes j of None \<Rightarrow> 0 | Some v \<Rightarrow> real_of_int v) []]"
     "samples_of heapUsed (exportProcessMemory st) =
       [MustNewConstMetric heapUsed GaugeValue
          (case used_in_bytes j of None \<Rightarrow> 0 | Some v \<Rightarrow> real_of_int v) []]"
     "samples_of heapSizeLimit (exportProcessMemory st) =
       [MustNewConstMetric heapSizeLimit GaugeValue
          (case size_limit j of None \<Rightarrow> 0 | Some v \<Rightarrow> real_of_int v) []]"
    using assms(1)
    by (auto simp: heap_field_def exportProcessMemory_def decode_HeapMetrics_def samples_of_Cons
        samples_of_Nil samples_of_append split: option.splits Option.bind_splits)
  show ?thesis
    using assms(2)
    by (simp add: samples_of_exportStatus completed_exportStatus samples_of_Cons samples_of_Nil
        samples_of_exportCore exportAfterCore_def samples_of_append samples_of_blocks mem)
qed

lemma labels_fit_exportCore: "s \<in> set (emitted (exportCore m)) \<Longrightarrow> labels_fit s"
  by (induction m rule: exportCore.induct)
     (auto simp: emitted_send MustNewConstMetric_def labels_fit_def NewDesc_def)

lemma labels_fit_exportStatusCodes: "s \<in> set (exportStatusCodes m) \<Longrightarrow> labels_fit s"
  by (induction m rule: exportStatusCodes.induct)
     (auto simp: MustNewConstMetric_def labels_fit_def NewDesc_def)

lemma labels_fit_exportRequests: "s \<in> set (exportRequests st) \<Longrightarrow> labels_fit s"
  by (auto simp: exportRequests_def MustNewConstMetric_def labels_fit_def NewDesc_def
      split: option.splits dest: labels_fit_exportStatusCodes)

lemma labels_fit_exportOS: "s \<in> set (exportOS st) \<Longrightarrow> labels_fit s"
  by (auto simp: exportOS_def exportCPU_def exportLoad_def exportOSMemory_def
      MustNewConstMetric_def labels_fit_def NewDesc_def split: option.splits)

lemma labels_fit_exportAfterCore: "s \<in> set (exportAfterCore st) \<Longrightarrow> labels_fit s"
  unfolding exportAfterCore_def set_append Un_iff
  by (elim disjE)
     (auto simp: exportElasticsearch_def exportSavedObjects_def exportProcessMemory_def
        exportEventLoop_def exportUptime_def exportConcurrentConnections_def
        exportResponseTimes_def MustNewConstMetric_def labels_fit_def NewDesc_def
        split: option.splits dest: labels_fit_exportRequests labels_fit_exportOS)

lemma exportStatus_labels_fit: "s \<in> set (emitted (exportStatus st)) \<Longrightarrow> labels_fit s"
  unfolding emitted_exportStatus
  by (auto simp: MustNewConstMetric_def labels_fit_def NewDesc_def
      dest: labels_fit_exportCore labels_fit_exportAfterCore split: if_splits)

section \<open>The claims\<close>

subsection \<open>C1: one sample for each present field, none for an absent one\<close>

text \<open>
  C1 as stated fails by design in two places, both shown by the document
  \<open>empty_heap_and_total_code\<close>. Its heap object has none of its three scalar members,
  yet the three heap gauges are sent, with value 0. And its status code named
  \<open>total\<close> adds a second sample to the combination of \<open>requests_total\<close> with the
  label value \<open>total\<close>, which the total count drives already.
\<close>

theorem absent_heap_members_sent_as_zero_and_label_sent_twice:
  "heap_field empty_heap_and_total_code
     = Some (decode_HeapMetrics \<lparr>total_in_bytes = None, used_in_bytes = None, size_limit = None\<rparr>)
   \<and> exportStatus empty_heap_and_total_code =
     Completed
       [MustNewConstMetric statusOverall GaugeValue (-1) [],
        MustNewConstMetric heapTotal GaugeValue 0 [],
        MustNewConstMetric heapUsed GaugeValue 0 [],
        MustNewConstMetric heapSizeLimit GaugeValue 0 [],
        MustNewConstMetric requestsTotal CounterValue 3 [''total''],
        MustNewConstMetric requestsTotal CounterValue 5 [''total'']]"
  by (simp add: empty_heap_and_total_code_def example_defs block_defs heap_field_def)

text \<open>
  C1 as amended: for every status document whose core map holds no nil entry (and whose
  maps hold each key once), the translation returns, and the number of samples it has sent
  for a combination of descriptor and label values is \<open>driven\<close> of that combination:
  one for each present field that drives it and none for an absent one, where the heap
  gauges are driven by the heap object and a status code may drive the combination of a
  fixed label a second time.
\<close>

theorem translation_cardinality:
  assumes "None \<notin> snd ` set (Core (Status st))" and "well_formed st"
  shows "completed (exportStatus st)
    \<and> length (samples_for d ls (emitted (exportStatus st))) = driven st d ls"
proof -
  have ends: "completed (exportStatus st)"
    using assms(1) by (simp add: completed_exportStatus)
  have codes: "distinct (keys (status_codes_field st))" and core: "distinct (keys (Core (Status st)))"
    using assms(2) by (simp_all add: well_formed_def)
  have "length (samples_for d ls (emitted (exportStatus st)))
      = of_bool (d = statusOverall \<and> ls = [])
        + (of_bool (d = statusCore \<and> (\<exists>name \<in> set (keys (Core (Status st))). ls = [name]))
           + length (samples_for d ls (exportAfterCore st)))"
    unfolding emitted_exportStatus
    using ends count_exportCore [OF core assms(1), of d ls]
    by (auto simp: samples_for_Cons count_append)
  then have "length (samples_for d ls (emitted (exportStatus st))) = driven st d ls"
    unfolding count_exportAfterCore [OF assms(1) codes] count_exportProcessMemory
      count_exportRequests [OF codes] count_exportResponseTimes count_exportOS
    by (cases d) simp_all
  with ends show ?thesis by simp
qed

text \<open>
  The amended C1 at the end-to-end document of the specification, and at the document of
  the counterexample, where the heap gauge counts once and the label \<open>total\<close> twice.
\<close>

theorem translation_cardinality_witness:
  "None \<notin> snd ` set (Core (Status scenario)) \<and> well_formed scenario
   \<and> completed (exportStatus scenario)
   \<and> length (samples_for heapTotal [] (emitted (exportStatus scenario))) = 1
   \<and> length (samples_for statusCore [''elasticsearch''] (emitted (exportStatus scenario))) = 1
   \<and> length (samples_for residentSet [] (emitted (exportStatus scenario))) = 0
   \<and> None \<notin> snd ` set (Core (Status empty_heap_and_total_code))
   \<and> well_formed empty_heap_and_total_code
   \<and> length (samples_for heapTotal [] (emitted (exportStatus empty_heap_and_total_code))) = 1
   \<and> length (samples_for requestsTotal [''total'']
         (emitted (exportStatus empty_heap_and_total_code))) = 2"
proof -
  have a: "None \<notin> snd ` set (Core (Status scenario))"
    by (simp add: scenario_def example_defs)
  have b: "well_formed scenario"
    by (simp add: scenario_def example_defs well_formed_def keys_def status_codes_field_def)
  have c: "driven scenario heapTotal [] = 1" "driven scenario statusCore [''elasticsearch''] = 1"
    "driven scenario residentSet [] = 0"
    by (simp_all add: scenario_def example_defs heap_field_def resident_field_def keys_def)
  have a': "None \<notin> snd ` set (Core (Status empty_heap_and_total_code))"
    by (simp add: empty_heap_and_total_code_def example_defs)
  have b': "well_formed empty_heap_and_total_code"
    by (simp add: empty_heap_and_total_code_def example_defs well_formed_def keys_def
        status_codes_field_def)
  have c': "driven empty_heap_and_total_code heapTotal [] = 1"
    "driven empty_heap_and_total_code requestsTotal [''total''] = 2"
    by (simp_all add: empty_heap_and_total_code_def example_defs heap_field_def total_field_def
        disconnects_field_def status_codes_field_def keys_def)
  show ?thesis
    using translation_cardinality [OF a b, of heapTotal "[]"]
      translation_cardinality [OF a b, of statusCore "[''elasticsearch'']"]
      translation_cardinality [OF a b, of residentSet "[]"]
      translation_cardinality [OF a' b', of heapTotal "[]"]
      translation_cardinality [OF a' b', of requestsTotal "[''total'']"] a b c a' b' c'
    by simp
qed

subsection \<open>C2: the overall status gauge\<close>

text \<open>
  C2: after a successful fetch, the pass sends exactly one sample of the overall status
  descriptor, a gauge without labels, and its value is 1 for the level \<open>available\<close> or
  \<open>green\<close>, 0.5 for \<open>degraded\<close> or \<open>yellow\<close>, 0 for \<open>unavailable\<close> or
  \<open>red\<close>, and -1 for any other string. This holds for every document, also one on
  which the core loop panics, since the gauge is sent before the loop.
\<close>

theorem overall_status_gauge:
  assumes "fst (scrapeKibana env c n) = Inr st"
  shows "samples_of statusOverall (emitted (fst (Collect env c n elapsed))) =
     [MustNewConstMetric statusOverall GaugeValue
        (if OverallStatus.Level (Overall (Status st)) = ''available''
            \<or> OverallStatus.Level (Overall (Status st)) = ''green'' then 1
         else if OverallStatus.Level (Overall (Status st)) = ''degraded''
            \<or> OverallStatus.Level (Overall (Status st)) = ''yellow'' then 0.5
         else if OverallStatus.Level (Overall (Status st)) = ''unavailable''
            \<or> OverallStatus.Level (Overall (Status st)) = ''red'' then 0
         else -1) []]"
proof -
  have "samples_of statusOverall (emitted (exportStatus st)) =
      [MustNewConstMetric statusOverall GaugeValue
         (statusValue (OverallStatus.Level (Overall (Status st)))) []]"
    by (simp add: samples_of_exportStatus samples_of_Cons samples_of_Nil samples_of_exportCore
        samples_of_statusOverall_after)
  then show ?thesis
    by (simp add: samples_of_Collect_success [OF assms] samples_of_Cons samples_of_Nil
        statusValue_def)
qed

text \<open>
  C2 at the end-to-end document of the specification, whose level is \<open>green\<close>.
\<close>

theorem overall_status_gauge_witness:
  "fst (scrapeKibana (answering 200 (whole []) scenario) default_Config 0) = Inr scenario
   \<and> samples_of statusOverall
       (emitted (fst (Collect (answering 200 (whole []) scenario) default_Config 0 1000000)))
     = [MustNewConstMetric statusOverall GaugeValue 1 []]"
proof -
  have ok: "fst (scrapeKibana (answering 200 (whole []) scenario) default_Config 0) = Inr scenario"
    by (simp add: scrape_answering)
  have level: "OverallStatus.Level (Overall (Status scenario)) = ''green''"
    by (simp add: scenario_def example_defs)
  show ?thesis
    using overall_status_gauge [OF ok, of 1000000] ok level by simp
qed

subsection \<open>C3: the three samples of a failed fetch\<close>

text \<open>
  C3: when the fetch fails, whatever the error, the pass returns having sent exactly
  three samples: the scrape duration, \<open>up\<close> with value 0 and \<open>scrape_success\<close> with
  value 0. The duration is \<open>elapsed\<close> in seconds, and it is not negative, since
  \<open>time.Since\<close> of a reading of \<open>time.Now\<close> measures on the monotonic clock
  (\<open>0 \<le> elapsed\<close>).
\<close>

theorem failed_fetch_three_samples:
  assumes "fst (scrapeKibana env c n) = Inl err" and "0 \<le> elapsed"
  shows "fst (Collect env c n elapsed) =
     Completed [MustNewConstMetric scrapeDuration GaugeValue (Seconds elapsed) [],
                MustNewConstMetric up GaugeValue 0 [],
                MustNewConstMetric scrapeSuccess GaugeValue 0 []]
   \<and> 0 \<le> Seconds elapsed"
  using assms by (simp add: Collect_failure Seconds_def)

text \<open>
  C3 at a transport failure, at a response 503 and at a body that does not decode.
\<close>

theorem failed_fetch_three_samples_witness:
  "fst (scrapeKibana timing_out default_Config 0) = Inl (MakingRequest ''context deadline exceeded'')
   \<and> fst (scrapeKibana (answering 503 (whole ''Kibana server is not ready yet'') zero_KibanaStatus)
           default_Config 0)
       = Inl (UnexpectedStatus 503 ''Kibana server is not ready yet'')
   \<and> fst (scrapeKibana malformed default_Config 0) = Inl (DecodingResponse ''invalid character <'')
   \<and> fst (Collect timing_out default_Config 0 10000000000) =
       Completed [MustNewConstMetric scrapeDuration GaugeValue 10 [],
                  MustNewConstMetric up GaugeValue 0 [],
                  MustNewConstMetric scrapeSuccess GaugeValue 0 []]
   \<and> fst (Collect (answering 503 (whole ''Kibana server is not ready yet'') zero_KibanaStatus)
           default_Config 0 2000000000) =
       Completed [MustNewConstMetric scrapeDuration GaugeValue 2 [],
                  MustNewConstMetric up GaugeValue 0 [],
                  MustNewConstMetric scrapeSuccess GaugeValue 0 []]
   \<and> fst (Collect malformed default_Config 0 0) =
       Completed [MustNewConstMetric scrapeDuration GaugeValue 0 [],
                  MustNewConstMetric up GaugeValue 0 [],
                  MustNewConstMetric scrapeSuccess GaugeValue 0 []]"
proof -
  have a: "fst (scrapeKibana timing_out default_Config 0)
      = Inl (MakingRequest ''context deadline exceeded'')"
    by (simp add: scrapeKibana_def environment_defs)
  have b: "fst (scrapeKibana (answering 503 (whole ''Kibana server is not ready yet'')
        zero_KibanaStatus) default_Config 0)
      = Inl (UnexpectedStatus 503 ''Kibana server is not ready yet'')"
    by (simp add: scrapeKibana_def environment_defs)
  have c: "fst (scrapeKibana malformed default_Config 0)
      = Inl (DecodingResponse ''invalid character <'')"
    by (simp add: scrapeKibana_def environment_defs)
  show ?thesis
    using failed_fetch_three_samples [OF a, of 10000000000]
      failed_fetch_three_samples [OF b, of 2000000000]
      failed_fetch_three_samples [OF c, of 0] a b c
    by (simp add: Seconds_def)
qed

subsection \<open>C4: milliseconds to seconds\<close>

text \<open>
  C4: after a successful fetch of a document that holds the event loop delay, the uptime,
  the average or the maximal response time, the samples of the matching combination of
  descriptor and label values are exactly one gauge whose value is the field divided by
  1000; on a pass that the core loop stops there is none, so no sample of these
  descriptors ever carries another value.
\<close>

theorem milliseconds_to_seconds:
  assumes "fst (scrapeKibana env c n) = Inr st"
  shows "(\<forall>x. EventLoopDelay (Process (Metrics st)) = Some x \<longrightarrow>
            samples_for eventLoop [] (emitted (fst (Collect env c n elapsed))) =
              (if completed (fst (Collect env c n elapsed))
               then [MustNewConstMetric eventLoop GaugeValue (x / 1000) []] else []))
    \<and> (\<forall>x. Uptime (Process (Metrics st)) = Some x \<longrightarrow>
            samples_for uptime [] (emitted (fst (Collect env c n elapsed))) =
              (if completed (fst (Collect env c n elapsed))
               then [MustNewConstMetric uptime GaugeValue (x / 1000) []] else []))
    \<and> (\<forall>x. avg_field st = Some x \<longrightarrow>
            samples_for responseTime [''avg''] (emitted (fst (Collect env c n elapsed))) =
              (if completed (fst (Collect env c n elapsed))
               then [MustNewConstMetric responseTime GaugeValue (x / 1000) [''avg'']] else []))
    \<and> (\<forall>x. max_field st = Some x \<longrightarrow>
            samples_for responseTime [''max''] (emitted (fst (Collect env c n elapsed))) =
              (if completed (fst (Collect env c n elapsed))
               then [MustNewConstMetric responseTime GaugeValue (x / 1000) [''max'']] else []))"
proof (intro conjI allI impI)
  fix x assume "EventLoopDelay (Process (Metrics st)) = Some x"
  then show "samples_for eventLoop [] (emitted (fst (Collect env c n elapsed))) =
      (if completed (fst (Collect env c n elapsed))
       then [MustNewConstMetric eventLoop GaugeValue (x / 1000) []] else [])"
    by (simp add: samples_for_after_core_only [OF assms] samples_for_eventLoop_after
        exportEventLoop_def)
next
  fix x assume "Uptime (Process (Metrics st)) = Some x"
  then show "samples_for uptime [] (emitted (fst (Collect env c n elapsed))) =
      (if completed (fst (Collect env c n elapsed))
       then [MustNewConstMetric uptime GaugeValue (x / 1000) []] else [])"
    by (simp add: samples_for_after_core_only [OF assms] samples_for_uptime_after
        exportUptime_def)
next
  fix x assume "avg_field st = Some x"
  then show "samples_for responseTime [''avg''] (emitted (fst (Collect env c n elapsed))) =
      (if completed (fst (Collect env c n elapsed))
       then [MustNewConstMetric responseTime GaugeValue (x / 1000) [''avg'']] else [])"
    by (simp add: samples_for_after_core_only [OF assms] samples_for_responseTime_after
        samples_for_avg)
next
  fix x assume "max_field st = Some x"
  then show "samples_for responseTime [''max''] (emitted (fst (Collect env c n elapsed))) =
      (if completed (fst (Collect env c n elapsed))
       then [MustNewConstMetric responseTime GaugeValue (x / 1000) [''max'']] else [])"
    by (simp add: samples_for_after_core_only [OF assms] samples_for_responseTime_after
        samples_for_max)
qed

text \<open>
  C4 at the document \<open>timings\<close>: 250 ms are 0.25 s, 60000 ms are 60 s, 12 ms are
  0.012 s and 40 ms are 0.04 s.
\<close>

theorem milliseconds_to_seconds_witness:
  "fst (scrapeKibana (answering 200 (whole []) timings) default_Config 0) = Inr timings
   \<and> EventLoopDelay (Process (Metrics timings)) = Some 250
   \<and> Uptime (Process (Metrics timings)) = Some 60000
   \<and> avg_field timings = Some 12 \<and> max_field timings = Some 40
   \<and> samples_for eventLoop []
        (emitted (fst (Collect (answering 200 (whole []) timings) default_Config 0 1000000)))
      = [MustNewConstMetric eventLoop GaugeValue 0.25 []]
   \<and> samples_for uptime []
        (emitted (fst (Collect (answering 200 (whole []) timings) default_Config 0 1000000)))
      = [MustNewConstMetric uptime GaugeValue 60 []]
   \<and> samples_for responseTime [''avg'']
        (emitted (fst (Collect (answering 200 (whole []) timings) default_Config 0 1000000)))
      = [MustNewConstMetric responseTime GaugeValue 0.012 [''avg'']]
   \<and> samples_for responseTime [''max'']
        (emitted (fst (Collect (answering 200 (whole []) timings) default_Config 0 1000000)))
      = [MustNewConstMetric responseTime GaugeValue 0.04 [''max'']]"
proof -
  have ok: "fst (scrapeKibana (answering 200 (whole []) timings) default_Config 0) = Inr timings"
    by (simp add: scrape_answering)
  have fields: "EventLoopDelay (Process (Metrics timings)) = Some 250"
    "Uptime (Process (Metrics timings)) = Some 60000"
    "avg_field timings = Some 12" "max_field timings = Some 40"
    by (simp_all add: timings_def zero_KibanaStatus_def avg_field_def max_field_def)
  have "completed (exportStatus timings)"
    by (simp add: completed_exportStatus timings_def zero_KibanaStatus_def)
  then have ends:
    "completed (fst (Collect (answering 200 (whole []) timings) default_Config 0 1000000))"
    by (simp only: completed_Collect_success [OF ok])
  show ?thesis
    using milliseconds_to_seconds [OF ok, of 1000000] ok fields ends by simp
qed

subsection \<open>C5: the pass on a document with a null core entry\<close>

text \<open>
  C5 does not hold of the code: the document \<open>null_core\<close> decodes, and the pass on it
  panics on the nil pointer in the core loop (line 453), after the scrape samples and the
  overall gauge; it does not run to completion.
\<close>

theorem null_core_entry_panics:
  "Core (Status null_core) = [(''elasticsearch'', None)]
   \<and> scrapeKibana (answering 200 (whole []) null_core) default_Config 0 = (Inr null_core, 1)
   \<and> exportStatus null_core = Panicked [MustNewConstMetric statusOverall GaugeValue (-1) []]
   \<and> fst (Collect (answering 200 (whole []) null_core) default_Config 0 1000000) =
       Panicked [MustNewConstMetric scrapeDuration GaugeValue 0.001 [],
                 MustNewConstMetric up GaugeValue 1 [],
                 MustNewConstMetric scrapeSuccess GaugeValue 1 [],
                 MustNewConstMetric statusOverall GaugeValue (-1) []]"
  by (simp add: Collect_def scrape_answering null_core_def example_defs block_defs Seconds_def)

subsection \<open>C6: one attempt, and the errors of the fetch\<close>

text \<open>
  C6 as stated fails where the request cannot be built: \<open>scrapeKibana\<close> returns before
  any call of \<open>client.Do\<close>, so the count of attempts stays at 0, and the error is none of
  the three kinds of the claim.
\<close>

theorem no_attempt_when_request_cannot_be_built:
  "scrapeKibana rejecting_control_bytes newline_Config 0
     = (Inl (CreatingRequest ''net/url: invalid control character in URL''), 0)"
  by (simp add: scrapeKibana_def environment_defs)

text \<open>
  C6 as amended: \<open>scrapeKibana\<close> makes one call of \<open>client.Do\<close> when the URL parses
  and none when it does not; in the latter case it fails with the error of creating the
  request, which carries the cause. A transport failure gives the error of making the
  request with its cause; a response other than 200 gives the unexpected status with the
  status code and the bytes read from the body, whether or not reading broke off; a body
  that does not decode gives the decoding error with its cause; otherwise the document is
  returned. What later calls of \<open>client.Do\<close> would come back with has no part in the
  result: there is no second attempt.
\<close>

theorem scrapeKibana_single_attempt:
  "(url_Parse env (KibanaURL c @ ''/api/status'') = None \<longrightarrow> snd (scrapeKibana env c n) = Suc n)
   \<and> (\<forall>cause. url_Parse env (KibanaURL c @ ''/api/status'') = Some cause \<longrightarrow>
         scrapeKibana env c n = (Inl (CreatingRequest cause), n))
   \<and> (\<forall>cause. url_Parse env (KibanaURL c @ ''/api/status'') = None \<longrightarrow>
         Do_result env n (status_request c) = Inl cause \<longrightarrow>
         fst (scrapeKibana env c n) = Inl (MakingRequest cause))
   \<and> (\<forall>resp. url_Parse env (KibanaURL c @ ''/api/status'') = None \<longrightarrow>
         Do_result env n (status_request c) = Inr resp \<longrightarrow> StatusCode resp \<noteq> 200 \<longrightarrow>
         fst (scrapeKibana env c n) = Inl (UnexpectedStatus (StatusCode resp) (bytes (Body resp))))
   \<and> (\<forall>resp cause. url_Parse env (KibanaURL c @ ''/api/status'') = None \<longrightarrow>
         Do_result env n (status_request c) = Inr resp \<longrightarrow> StatusCode resp = 200 \<longrightarrow>
         json_Decode env (Body resp) = Inl cause \<longrightarrow>
         fst (scrapeKibana env c n) = Inl (DecodingResponse cause))
   \<and> (\<forall>resp st. url_Parse env (KibanaURL c @ ''/api/status'') = None \<longrightarrow>
         Do_result env n (status_request c) = Inr resp \<longrightarrow> StatusCode resp = 200 \<longrightarrow>
         json_Decode env (Body resp) = Inr st \<longrightarrow>
         fst (scrapeKibana env c n) = Inr st)
   \<and> (\<forall>later. (\<forall>req. later n req = Do_result env n req) \<longrightarrow>
         scrapeKibana (env\<lparr>Do_result := later\<rparr>) c n = scrapeKibana env c n)"
  by (auto simp: scrapeKibana_def NewRequest_def client_Do_def ReadAll_def status_request_def
      split: option.splits sum.splits)

text \<open>
  C6 as amended, at a response 503 whose body breaks off, at a URL with a line feed, at a
  transport failure, at a body that does not decode and at a successful fetch.
\<close>

theorem scrapeKibana_single_attempt_witness:
  "url_Parse (answering 503 \<lparr>bytes = ''Kibana server is not'', failure = Some ''unexpected EOF''\<rparr>
       zero_KibanaStatus) (KibanaURL default_Config @ ''/api/status'') = None
   \<and> scrapeKibana (answering 503 \<lparr>bytes = ''Kibana server is not'', failure = Some ''unexpected EOF''\<rparr>
       zero_KibanaStatus) default_Config 0
     = (Inl (UnexpectedStatus 503 ''Kibana server is not''), 1)
   \<and> url_Parse rejecting_control_bytes (KibanaURL newline_Config @ ''/api/status'')
     = Some ''net/url: invalid control character in URL''
   \<and> scrapeKibana rejecting_control_bytes newline_Config 0
     = (Inl (CreatingRequest ''net/url: invalid control character in URL''), 0)
   \<and> scrapeKibana timing_out default_Config 0
     = (Inl (MakingRequest ''context deadline exceeded''), 1)
   \<and> scrapeKibana malformed default_Config 0 = (Inl (DecodingResponse ''invalid character <''), 1)
   \<and> scrapeKibana (answering 200 (whole []) scenario) default_Config 0 = (Inr scenario, 1)"
proof -
  let ?busy = "answering 503 \<lparr>bytes = ''Kibana server is not'', failure = Some ''unexpected EOF''\<rparr>
       zero_KibanaStatus"
  have url: "url_Parse ?busy (KibanaURL default_Config @ ''/api/status'') = None"
    "url_Parse timing_out (KibanaURL default_Config @ ''/api/status'') = None"
    "url_Parse malformed (KibanaURL default_Config @ ''/api/status'') = None"
    "url_Parse (answering 200 (whole []) scenario) (KibanaURL default_Config @ ''/api/status'') = None"
    by (simp_all add: environment_defs)
  have bad: "url_Parse rejecting_control_bytes (KibanaURL newline_Config @ ''/api/status'')
      = Some ''net/url: invalid control character in URL''"
    by (simp add: environment_defs)
  have trips: "Do_result ?busy 0 (status_request default_Config)
        = Inr \<lparr>StatusCode = 503, Body = \<lparr>bytes = ''Kibana server is not'', failure = Some ''unexpected EOF''\<rparr>\<rparr>"
    "Do_result timing_out 0 (status_request default_Config) = Inl ''context deadline exceeded''"
    "Do_result malformed 0 (status_request default_Config)
        = Inr \<lparr>StatusCode = 200, Body = whole ''<html>''\<rparr>"
    "Do_result (answering 200 (whole []) scenario) 0 (status_request default_Config)
        = Inr \<lparr>StatusCode = 200, Body = whole []\<rparr>"
    by (simp_all add: answering_def timing_out_def malformed_def)
  have decode: "json_Decode malformed (whole ''<html>'') = Inl ''invalid character <''"
    "json_Decode (answering 200 (whole []) scenario) (whole []) = Inr scenario"
    by (simp_all add: answering_def malformed_def)
  show ?thesis
    using scrapeKibana_single_attempt [of ?busy default_Config 0]
      scrapeKibana_single_attempt [of rejecting_control_bytes newline_Config 0]
      scrapeKibana_single_attempt [of timing_out default_Config 0]
      scrapeKibana_single_attempt [of malformed default_Config 0]
      scrapeKibana_single_attempt [of "answering 200 (whole []) scenario" default_Config 0]
      url bad trips decode
    by (simp add: prod_eq_iff)
qed

subsection \<open>C7: CheckHealth\<close>

text \<open>
  C7: \<open>CheckHealth\<close> returns no error if and only if the request could be made and came
  back with the status 200, whatever the body holds; the decoder has no part in its
  result, and the \<open>/ready\<close> handler answers 200 in exactly that case and 503 otherwise.
  Its result is an error value and the count of attempts: it has no channel to send a
  sample on.
\<close>

theorem CheckHealth_success_iff_200:
  "(fst (CheckHealth env c n) = None)
     = (url_Parse env (KibanaURL c @ ''/api/status'') = None
        \<and> (\<exists>resp. Do_result env n (status_request c) = Inr resp \<and> StatusCode resp = 200))
   \<and> CheckHealth (env\<lparr>json_Decode := decoder\<rparr>) c n = CheckHealth env c n
   \<and> (fst (fst (ready_handler env c n)) = 200) = (fst (CheckHealth env c n) = None)
   \<and> (fst (fst (ready_handler env c n)) = 503) = (fst (CheckHealth env c n) \<noteq> None)"
  by (auto simp: CheckHealth_def ready_handler_def NewRequest_def client_Do_def status_request_def
      split: option.splits sum.splits prod.splits)

text \<open>
  C7 at a response 200 whose body is no JSON, at a response 503 and at a transport
  failure.
\<close>

theorem CheckHealth_success_iff_200_witness:
  "fst (CheckHealth malformed default_Config 0) = None
   \<and> fst (CheckHealth (answering 503 (whole []) scenario) default_Config 0)
       = Some (KibanaReturnedStatus 503)
   \<and> fst (CheckHealth timing_out default_Config 0) = Some (Passed ''context deadline exceeded'')
   \<and> fst (ready_handler malformed default_Config 0) = (200, None)"
proof -
  have trips: "Do_result malformed 0 (status_request default_Config)
        = Inr \<lparr>StatusCode = 200, Body = whole ''<html>''\<rparr>"
    "url_Parse malformed (KibanaURL default_Config @ ''/api/status'') = None"
    by (simp_all add: answering_def malformed_def)
  have rest: "fst (CheckHealth (answering 503 (whole []) scenario) default_Config 0)
       = Some (KibanaReturnedStatus 503)"
    "fst (CheckHealth timing_out default_Config 0) = Some (Passed ''context deadline exceeded'')"
    by (simp_all add: CheckHealth_def environment_defs)
  have ok: "fst (CheckHealth malformed default_Config 0) = None"
    using CheckHealth_success_iff_200 [of malformed default_Config 0] trips by simp
  then have "fst (ready_handler malformed default_Config 0) = (200, None)"
    by (cases "CheckHealth malformed default_Config 0") (simp add: ready_handler_def)
  with ok rest show ?thesis by simp
qed

subsection \<open>C9: the descriptor that is never driven\<close>

text \<open>
  C9: \<open>Describe\<close> sends 24 descriptors, all different; one of them is
  \<open>kibana_process_memory_bytes\<close> with the label \<open>type\<close>, and no pass of
  \<open>Collect\<close>, whatever the fetch returns and however the pass ends, sends a sample of it.
\<close>

theorem processMemory_never_sent:
  "length Describe = 24 \<and> distinct Describe \<and> Describe ! 14 = processMemory
   \<and> fqName (NewKibanaCollector processMemory) = ''kibana_process_memory_bytes''
   \<and> variableLabels (NewKibanaCollector processMemory) = [''type'']
   \<and> samples_of processMemory (emitted (fst (Collect env c n elapsed))) = []"
proof -
  have catalog: "length Describe = 24" "distinct Describe" "Describe ! 14 = processMemory"
    by (simp_all add: Describe_def)
  have named: "fqName (NewKibanaCollector processMemory) = ''kibana_process_memory_bytes''"
    "variableLabels (NewKibanaCollector processMemory) = [''type'']"
    by (simp_all add: NewDesc_def BuildFQName_def namespace_def)
  have "samples_of processMemory (emitted (fst (Collect env c n elapsed))) = []"
  proof (cases "fst (scrapeKibana env c n)")
    case (Inl err)
    then show ?thesis
      by (simp add: Collect_failure samples_of_Cons samples_of_Nil)
  next
    case (Inr st)
    then show ?thesis
      by (simp add: samples_of_Collect_success samples_of_exportStatus samples_of_Cons
          samples_of_Nil samples_of_exportCore samples_of_processMemory_after)
  qed
  with catalog named show ?thesis by simp
qed

subsection \<open>C10: the heap gauges of a heap object with absent members\<close>

text \<open>
  C10 does not hold of the code on every document: \<open>null_core_with_heap\<close> holds a heap
  object with two absent members, and the pass on it sends no heap gauge, since the nil
  pointer in the core loop stops it before (the defect of C5). Where the core map holds
  no nil entry the three gauges are sent, an absent member as 0 (\<open>heap_gauges\<close>).
\<close>

theorem null_core_entry_stops_heap_gauges:
  "heap_field null_core_with_heap
     = Some (decode_HeapMetrics \<lparr>total_in_bytes = Some 100, used_in_bytes = None, size_limit = None\<rparr>)
   \<and> fst (Collect (answering 200 (whole []) null_core_with_heap) default_Config 0 1000000) =
       Panicked [MustNewConstMetric scrapeDuration GaugeValue 0.001 [],
                 MustNewConstMetric up GaugeValue 1 [],
                 MustNewConstMetric scrapeSuccess GaugeValue 1 [],
                 MustNewConstMetric statusOverall GaugeValue (-1) []]"
  by (simp add: Collect_def scrape_answering null_core_with_heap_def example_defs block_defs
      Seconds_def heap_field_def)

end
